theory Spec2Isabelle
  imports Main "HOL-Library.Sublist"
begin

section \<open>Strings: the library calls of \<^verbatim>\<open>main.go\<close>\<close>

text \<open>
  Go strings are byte sequences; they are modelled as \<open>string\<close> (a list of 8-bit
  characters). The escape character \<^verbatim>\<open>\033\<close>, the newline and the tab are named.
\<close>

definition ESC :: char where
  "ESC = CHR 0x1B"

definition NL :: char where
  "NL = CHR 0x0A"

definition TAB :: char where
  "TAB = CHR 0x09"

text \<open>\<^verbatim>\<open>const _delim = ":::"\<close>\<close>

definition delim :: string where
  "delim = '':::''"

text \<open>
  \<^verbatim>\<open>strings.Index(s, substr)\<close>: the index of the first instance of \<open>substr\<close> in \<open>s\<close>;
  Go's \<open>-1\<close> is \<open>None\<close>.
\<close>

fun Index :: "string \<Rightarrow> string \<Rightarrow> nat option" where
  "Index [] substr = (if substr = [] then Some 0 else None)"
| "Index (c # cs) substr =
     (if prefix substr (c # cs) then Some 0 else map_option Suc (Index cs substr))"

text \<open>
  \<^verbatim>\<open>strings.Count(s, substr)\<close>: the number of non-overlapping instances of \<open>substr\<close>,
  found left to right by \<open>Index\<close>. For an empty \<open>substr\<close> Go returns the number of
  runes plus one; the program never passes an empty separator, and that branch counts
  bytes here.
\<close>

function Count :: "string \<Rightarrow> string \<Rightarrow> nat" where
  "Count s substr =
     (if substr = [] then length s + 1
      else case Index s substr of
             None \<Rightarrow> 0
           | Some i \<Rightarrow> 1 + Count (drop (i + length substr) s) substr)"
  by pat_completeness auto
termination
proof (relation "measure (\<lambda>(s, substr). length s)")
  show "wf (measure (\<lambda>(s, substr). length s))"
    by simp
next
  fix s substr :: string and i :: nat
  assume ne: "substr \<noteq> []" and ix: "Index s substr = Some i"
  have bound: "\<And>j. Index s substr = Some j \<Longrightarrow> j + length substr \<le> length s"
  proof (induction s)
    case Nil
    then show ?case by (simp split: if_splits)
  next
    case (Cons c cs)
    then show ?case
      by (auto dest: prefix_length_le split: if_splits)
  qed
  from bound [OF ix] ne have "0 < length s"
    by (cases substr) auto
  then show "((drop (i + length substr) s, substr), (s, substr))
               \<in> measure (\<lambda>(s, substr). length s)"
    using ne by simp
qed

text \<open>
  The loop of \<^verbatim>\<open>strings.genSplit\<close>:
  \<^verbatim>\<open>
  for i < n { m := Index(s, sep); if m < 0 { break }
              a[i] = s[:m+sepSave]; s = s[m+len(sep):]; i++ }
  a[i] = s
  return a[:i+1]
  \<close>
  The first argument is the number of iterations left (\<open>n - i\<close> after \<open>n--\<close>);
  \<open>sepSave\<close> is 0 at both call sites.
\<close>

fun genSplit_loop :: "nat \<Rightarrow> string \<Rightarrow> string \<Rightarrow> string list" where
  "genSplit_loop 0 s sep = [s]"
| "genSplit_loop (Suc k) s sep =
     (case Index s sep of
        None \<Rightarrow> [s]
      | Some m \<Rightarrow> take m s # genSplit_loop k (drop (m + length sep) s) sep)"

text \<open>
  \<^verbatim>\<open>strings.genSplit(s, sep, 0, n)\<close> for a non-empty \<open>sep\<close> (the \<open>explode\<close> branch
  for \<open>sep == ""\<close> is not reached by this program, whose separators are the
  constants \<^verbatim>\<open>":::"\<close> and \<^verbatim>\<open>"\t"\<close>): \<open>n = 0\<close> gives no parts, a negative \<open>n\<close> means
  all parts, and \<open>n\<close> is capped at \<open>len(s) + 1\<close>.
\<close>

definition genSplit :: "string \<Rightarrow> string \<Rightarrow> int \<Rightarrow> string list" where
  "genSplit s sep n =
     (if n = 0 then []
      else let n1 = (if n < 0 then Count s sep + 1 else nat n);
               n2 = (if n1 > length s + 1 then length s + 1 else n1)
           in genSplit_loop (n2 - 1) s sep)"

definition Split :: "string \<Rightarrow> string \<Rightarrow> string list" where
  "Split s sep = genSplit s sep (- 1)"

definition SplitN :: "string \<Rightarrow> string \<Rightarrow> int \<Rightarrow> string list" where
  "SplitN s sep n = genSplit s sep n"

text \<open>\<^verbatim>\<open>strings.Join(elems, sep)\<close>\<close>

fun Join :: "string list \<Rightarrow> string \<Rightarrow> string" where
  "Join [] sep = []"
| "Join [x] sep = x"
| "Join (x # y # ys) sep = x @ sep @ Join (y # ys) sep"

text \<open>The verb \<^verbatim>\<open>%d\<close> of \<^verbatim>\<open>fmt\<close>: a decimal numeral, with a minus sign when negative.\<close>

definition digit_char :: "nat \<Rightarrow> char" where
  "digit_char d = ''0123456789'' ! d"

fun decimal :: "nat \<Rightarrow> string" where
  "decimal n = (if n < 10 then [digit_char n] else decimal (n div 10) @ [digit_char (n mod 10)])"

definition fmt_d :: "int \<Rightarrow> string" where
  "fmt_d i = (if i < 0 then CHR ''-'' # decimal (nat (- i)) else decimal (nat i))"


section \<open>Package \<^verbatim>\<open>tcolor\<close>\<close>

text \<open>\<^verbatim>\<open>type Color int\<close> with the constants \<open>Red\<close>, \<open>Green\<close> and \<open>Gray\<close>.\<close>

type_synonym Color = int

definition Red :: Color where
  "Red = 1"

definition Green :: Color where
  "Green = 2"

definition Gray :: Color where
  "Gray = 8"

text \<open>\<^verbatim>\<open>fmt.Sprintf("\033[38;5;%dm%s\033[0m", c, s)\<close>\<close>

definition Foreground :: "Color \<Rightarrow> string \<Rightarrow> string" where
  "Foreground c s = [ESC] @ ''[38;5;'' @ fmt_d c @ ''m'' @ s @ [ESC] @ ''[0m''"

text \<open>\<^verbatim>\<open>fmt.Sprintf("\033[1m%s\033[0m", s)\<close>\<close>

definition Bold :: "string \<Rightarrow> string" where
  "Bold s = [ESC] @ ''[1m'' @ s @ [ESC] @ ''[0m''"

section \<open>Errors, panics and effects\<close>

text \<open>
  Go's \<open>error\<close> values: an error from the operating system or a library, named by its
  message; \<^verbatim>\<open>fmt.Errorf(prefix + "%w", err)\<close>; and the value of \<^verbatim>\<open>errors.Join\<close>.
  A \<open>nil\<close> error is \<open>None\<close> of \<open>error option\<close>.
\<close>

datatype error =
    ErrorString string
  | WrapError string error
  | JoinError "error list"

text \<open>\<^verbatim>\<open>errors.Join(errs...)\<close> discards nil values and is nil when none is left.\<close>

definition errors_Join :: "error option list \<Rightarrow> error option" where
  "errors_Join errs =
     (case List.map_filter id errs of [] \<Rightarrow> None | e # es \<Rightarrow> Some (JoinError (e # es)))"

text \<open>
  What a goroutine can panic with in this program: \<^verbatim>\<open>panic(err)\<close>, or the run-time
  error of an index out of range.
\<close>

datatype panic_value = PanicError error | IndexOutOfRange

datatype outcome = Finished | Panicked panic_value

text \<open>
  The calls the program makes to its surroundings, in the order it makes them:
  printing on standard output, starting and awaiting processes, and the fatal log.
  \<open>Printf\<close> keeps the format and its arguments as the call gives them.
\<close>

datatype effect =
    Println string
  | Printf string "string list"
  | Cmd_Output "string list"
  | Cmd_StdoutPipe
  | Cmd_Start "string list"
  | Os_Pipe
  | Os_Getwd
  | Go_producer string
  | Os_Executable
  | Cmd_Run "string list"
  | Cmd_Wait
  | Stdout_Close
  | Log_Fatal error

text \<open>
  The surroundings: what each of those calls returns. \<open>Output_res\<close> gives, for the
  argument vector of a command, the error of \<^verbatim>\<open>cmd.Output()\<close> or the lines that a
  \<^verbatim>\<open>bufio.Scanner\<close> reads from its output.
\<close>

record os_env =
  StdoutPipe_res :: "error option"
  Start_res :: "error option"
  Pipe_res :: "error option"
  Getwd_res :: "error + string"
  Executable_res :: "error + string"
  Run_res :: "error option"
  Wait_res :: "error option"
  Output_res :: "string list \<Rightarrow> error + string list"

section \<open>The stream adapter (\<^verbatim>\<open>atuinAdapt\<close>)\<close>

text \<open>
  The write end \<open>w\<close> of the pipe, as the producer sees it: the writes that went
  through, the number of writes attempted, how many more writes the reader will take
  before its end is closed (\<open>None\<close>: it never closes), the error a write returns after
  that, the error of \<^verbatim>\<open>w.Close()\<close>, and whether \<open>w\<close> has been closed.
\<close>

record pipe =
  written :: "string list"
  attempts :: nat
  accepts :: "nat option"
  write_err :: error
  close_err :: "error option"
  closed :: bool

text \<open>\<^verbatim>\<open>fmt.Fprintln(w, s)\<close>: one write of \<open>s\<close> and a newline.\<close>

definition Fprintln :: "pipe \<Rightarrow> string \<Rightarrow> error option \<times> pipe" where
  "Fprintln w s =
     (case accepts w of
        None \<Rightarrow> (None, w\<lparr>written := written w @ [s @ [NL]], attempts := Suc (attempts w)\<rparr>)
      | Some 0 \<Rightarrow> (Some (write_err w), w\<lparr>attempts := Suc (attempts w)\<rparr>)
      | Some (Suc k) \<Rightarrow>
          (None, w\<lparr>written := written w @ [s @ [NL]], attempts := Suc (attempts w),
                   accepts := Some k\<rparr>))"

text \<open>\<^verbatim>\<open>w.Close()\<close>\<close>

definition Close :: "pipe \<Rightarrow> error option \<times> pipe" where
  "Close w = (case close_err w of Some e \<Rightarrow> (Some e, w) | None \<Rightarrow> (None, w\<lparr>closed := True\<rparr>))"

text \<open>
  The \<^verbatim>\<open>bufio.Scanner\<close> over the backend's output: the texts that successive calls of
  \<^verbatim>\<open>scanner.Scan()\<close> deliver, and what \<^verbatim>\<open>scanner.Err()\<close> returns once \<open>Scan\<close> is false.
\<close>

record scanner =
  tokens :: "string list"
  scan_err :: "error option"

text \<open>
  \<^verbatim>\<open>
  exitStatus := " "
  if exitCode != "0" { exitStatus = tcolor.Red.Foreground("exit " + exitCode) }
  \<close>
\<close>

definition exitStatus_of :: "string \<Rightarrow> string" where
  "exitStatus_of exitCode =
     (if exitCode \<noteq> ''0'' then Foreground Red (''exit '' @ exitCode) else '' '')"

text \<open>
  \<^verbatim>\<open>
  dirCtx := ""
  if directory == curDir { dirCtx = " \033[38;5;242m(current dir)\033[0m" }
  \<close>
\<close>

definition dirCtx_of :: "string \<Rightarrow> string \<Rightarrow> string" where
  "dirCtx_of curDir directory =
     (if directory = curDir
      then '' '' @ [ESC] @ ''[38;5;242m(current dir)'' @ [ESC] @ ''[0m''
      else [])"

text \<open>
  The body of the loop up to the write: split, index the five parts (a panic when
  there are fewer), derive the two fields and join the seven.
\<close>

definition adapt_line :: "string \<Rightarrow> string \<Rightarrow> panic_value + string" where
  "adapt_line curDir text =
     (let parts = Split text delim in
      if length parts < 5 then Inl IndexOutOfRange
      else
        let command = parts ! 0; exitCode = parts ! 1; directory = parts ! 2;
            duration = parts ! 3; timestamp = parts ! 4;
            exitStatus = exitStatus_of exitCode;
            dirCtx = dirCtx_of curDir directory
        in Inr (Join [command, exitCode, directory, duration, timestamp, exitStatus, dirCtx]
                  delim))"

text \<open>\<^verbatim>\<open>for scanner.Scan() { ... }\<close>: a panic ends the loop and the goroutine.\<close>

fun producer_loop :: "string \<Rightarrow> string list \<Rightarrow> pipe \<Rightarrow> panic_value option \<times> pipe" where
  "producer_loop curDir [] w = (None, w)"
| "producer_loop curDir (text # rest) w =
     (case adapt_line curDir text of
        Inl pv \<Rightarrow> (Some pv, w)
      | Inr line \<Rightarrow>
          (case Fprintln w line of
             (Some err, w') \<Rightarrow> (Some (PanicError err), w')
           | (None, w') \<Rightarrow> producer_loop curDir rest w'))"

text \<open>
  The goroutine of \<^verbatim>\<open>atuinAdapt\<close>: the loop, then \<^verbatim>\<open>scanner.Err()\<close>, then
  \<^verbatim>\<open>w.Close()\<close>, each error a panic.
\<close>

definition producer :: "string \<Rightarrow> scanner \<Rightarrow> pipe \<Rightarrow> outcome \<times> pipe" where
  "producer curDir sc w =
     (case producer_loop curDir (tokens sc) w of
        (Some pv, w') \<Rightarrow> (Panicked pv, w')
      | (None, w') \<Rightarrow>
          (case scan_err sc of
             Some err \<Rightarrow> (Panicked (PanicError err), w')
           | None \<Rightarrow>
               (case Close w' of
                  (Some err, w'') \<Rightarrow> (Panicked (PanicError err), w'')
                | (None, w'') \<Rightarrow> (Finished, w''))))"

text \<open>\<^verbatim>\<open>curDir, _ := os.Getwd() // best effort\<close>: the empty string when it fails.\<close>

definition curDir_of :: "os_env \<Rightarrow> string" where
  "curDir_of os = (case Getwd_res os of Inl err \<Rightarrow> [] | Inr dir \<Rightarrow> dir)"

text \<open>
  \<^verbatim>\<open>atuinAdapt\<close> as its caller sees it: the pipe is made (or the error returned), the
  working directory captured, the producer started, and the read end returned.
\<close>

definition atuinAdapt :: "os_env \<Rightarrow> effect list \<times> (error + unit)" where
  "atuinAdapt os =
     (case Pipe_res os of
        Some err \<Rightarrow> ([Os_Pipe], Inl err)
      | None \<Rightarrow> ([Os_Pipe, Os_Getwd, Go_producer (curDir_of os)], Inr ()))"


section \<open>The pipeline controller (\<^verbatim>\<open>altuinSearch\<close>, \<^verbatim>\<open>fzf\<close>, \<^verbatim>\<open>run\<close>)\<close>

definition atuinFmt :: string where
  "atuinFmt = Join [''{command}'', ''{exit}'', ''{directory}'', ''{duration}'', ''{time}''] delim"

definition atuin_search_argv :: "string list" where
  "atuin_search_argv = [''atuin'', ''search'', ''--limit'', ''1000'', ''--format'', atuinFmt]"

text \<open>
  \<^verbatim>\<open>altuinSearch\<close>: \<^verbatim>\<open>cmd.StdoutPipe()\<close>, then \<^verbatim>\<open>cmd.Start()\<close>, each error wrapped
  and returned; the handle of the started command otherwise.
\<close>

definition altuinSearch :: "os_env \<Rightarrow> effect list \<times> (error + unit)" where
  "altuinSearch os =
     (case StdoutPipe_res os of
        Some err \<Rightarrow> ([Cmd_StdoutPipe], Inl (WrapError ''atuin stdout: '' err))
      | None \<Rightarrow>
          (case Start_res os of
             Some err \<Rightarrow>
               ([Cmd_StdoutPipe, Cmd_Start atuin_search_argv],
                Inl (WrapError ''start atuin: '' err))
           | None \<Rightarrow> ([Cmd_StdoutPipe, Cmd_Start atuin_search_argv], Inr ())))"

definition previewFmt :: string where
  "previewFmt = Join [''{1}'', ''{2}'', ''{3}'', ''{4}'', ''{5}'', ''{6}''] delim"

definition fzf_argv :: "string \<Rightarrow> string \<Rightarrow> string list" where
  "fzf_argv selfExe query =
     [''fzf'',
      ''--tac'',
      ''--ansi'',
      ''--scheme'', ''history'',
      ''--prompt'', ''> '',
      ''--header'', ''[Enter] to select, [Ctrl-Y] to yank.'',
      ''--preview'', selfExe @ '' --preview '' @ previewFmt @ '' '',
      ''--preview-window'', ''right:40%:wrap'',
      ''--delimiter'', delim,
      ''--with-nth'', ''{1}  {6} {7}'',
      ''--accept-nth'', ''{1}'',
      ''--bind'', ''ctrl-y:execute-silent(echo -n {1} | pbcopy)+abort'',
      ''--query'', query,
      ''--height'', ''80%'']"

text \<open>\<^verbatim>\<open>fzf(input, query)\<close>: \<^verbatim>\<open>os.Executable()\<close>, then \<^verbatim>\<open>fzfCmd.Run()\<close>.\<close>

definition fzf :: "os_env \<Rightarrow> string \<Rightarrow> effect list \<times> error option" where
  "fzf os query =
     (case Executable_res os of
        Inl err \<Rightarrow> ([Os_Executable], Some (WrapError ''self executable: '' err))
      | Inr selfExe \<Rightarrow>
          (case Run_res os of
             Some err \<Rightarrow>
               ([Os_Executable, Cmd_Run (fzf_argv selfExe query)],
                Some (WrapError ''run fzf: '' err))
           | None \<Rightarrow> ([Os_Executable, Cmd_Run (fzf_argv selfExe query)], None)))"

text \<open>
  \<^verbatim>\<open>run(query)\<close>. The deferred \<^verbatim>\<open>atuin.stdout.Close()\<close> runs on every return after
  the backend was launched. The producer that \<^verbatim>\<open>atuinAdapt\<close> starts runs beside the
  controller; it is the function \<open>producer\<close> above.
\<close>

definition run :: "os_env \<Rightarrow> string \<Rightarrow> effect list \<times> error option" where
  "run os query =
     (case altuinSearch os of
        (e1, Inl err) \<Rightarrow> (e1, Some err)
      | (e1, Inr atuin) \<Rightarrow>
          (case atuinAdapt os of
             (e2, Inl err) \<Rightarrow> (e1 @ e2 @ [Stdout_Close], Some err)
           | (e2, Inr fzfInput) \<Rightarrow>
               (case fzf os query of
                  (e3, Some err) \<Rightarrow> (e1 @ e2 @ e3 @ [Stdout_Close], Some err)
                | (e3, None) \<Rightarrow>
                    (case Wait_res os of
                       Some err \<Rightarrow> (e1 @ e2 @ e3 @ [Cmd_Wait, Stdout_Close], Some err)
                     | None \<Rightarrow> (e1 @ e2 @ e3 @ [Cmd_Wait, Stdout_Close], None)))))"

section \<open>The preview renderer (\<^verbatim>\<open>fzfPreview\<close>)\<close>

text \<open>The rule of 51 box-drawing characters (U+2500, three bytes each in UTF-8).\<close>

definition rule_line :: string where
  "rule_line = concat (replicate 51 [CHR 0xE2, CHR 0x94, CHR 0x80])"

definition field_fmt :: string where
  "field_fmt = ''%-10s %s'' @ [NL]"

definition related_fmt :: string where
  "related_fmt = ''%-40.40s (%s)'' @ [NL]"

definition globalSearch_argv :: "string \<Rightarrow> string list" where
  "globalSearch_argv command =
     [''atuin'', ''search'', ''--limit'', ''5'', ''--search-mode'', ''prefix'',
      ''--format'', ''{command}'' @ [TAB] @ ''{directory}'', command]"

definition dirSearch_argv :: "string \<Rightarrow> string \<Rightarrow> string list" where
  "dirSearch_argv command directory =
     [''atuin'', ''search'', ''--limit'', ''5'', ''--search-mode'', ''prefix'',
      ''--cwd'', directory,
      ''--format'', ''{command}'' @ [TAB] @ ''{directory}'', command]"

text \<open>
  The loop of \<^verbatim>\<open>printResults\<close> over the scanned lines. \<open>seen\<close> is the
  \<^verbatim>\<open>map[string]bool\<close>, whose missing keys read as false.
  \<^verbatim>\<open>
  if !seen[line] {
      seen[line] = true
      parts := strings.SplitN(line, "\t", 2)
      if len(parts) == 2 { fmt.Printf("%-40.40s (%s)\n", parts[0], parts[1]) }
  }
  \<close>
\<close>

fun printResults_loop ::
  "(string \<Rightarrow> bool) \<Rightarrow> string list \<Rightarrow> effect list \<times> (string \<Rightarrow> bool)" where
  "printResults_loop seen [] = ([], seen)"
| "printResults_loop seen (line # rest) =
     (if \<not> seen line then
        (let seen' = seen(line := True);
             parts = SplitN line [TAB] 2;
             out = (if length parts = 2 then [Printf related_fmt [parts ! 0, parts ! 1]] else []);
             (more, seen'') = printResults_loop seen' rest
         in (out @ more, seen''))
      else printResults_loop seen rest)"

text \<open>
  \<^verbatim>\<open>printResults(cmd)\<close>: an error of \<^verbatim>\<open>cmd.Output()\<close> is returned before anything
  is printed or marked as seen.
\<close>

definition printResults ::
  "os_env \<Rightarrow> (string \<Rightarrow> bool) \<Rightarrow> string list
     \<Rightarrow> effect list \<times> error option \<times> (string \<Rightarrow> bool)" where
  "printResults os seen argv =
     (case Output_res os argv of
        Inl err \<Rightarrow> ([Cmd_Output argv], Some err, seen)
      | Inr lines \<Rightarrow>
          (let (out, seen') = printResults_loop seen lines
           in (Cmd_Output argv # out, None, seen')))"

text \<open>The fixed part of the report, printed before the two searches.\<close>

definition report_head ::
  "string \<Rightarrow> string \<Rightarrow> string \<Rightarrow> string \<Rightarrow> string \<Rightarrow> effect list" where
  "report_head command exitCode directory duration timestamp =
     (let exitCol = (if exitCode \<noteq> ''0'' then Red else Green) in
      [Println (Bold ''Full Command''),
       Println rule_line,
       Println command,
       Println [],
       Println (Bold ''Execution Details''),
       Println rule_line,
       Printf field_fmt [''Status:'', Foreground exitCol exitCode],
       Printf field_fmt [''Ran In:'', directory],
       Printf field_fmt [''Duration:'', duration],
       Printf field_fmt [''When:'', timestamp],
       Println [],
       Println (Bold ''Recent Similar Commands''),
       Println rule_line])"

text \<open>
  \<^verbatim>\<open>fzfPreview(data)\<close>: the effects in order and the returned error. Both calls of
  \<open>printResults\<close> are arguments of \<^verbatim>\<open>errors.Join\<close>, evaluated left to right.
\<close>

definition fzfPreview :: "os_env \<Rightarrow> string \<Rightarrow> effect list \<times> error option" where
  "fzfPreview os data =
     (let parts = Split data delim in
      if length parts < 5 then
        ([], Some (ErrorString (''data format incorrect, expected 5 parts, got ''
                                  @ fmt_d (int (length parts)))))
      else
        let command = parts ! 0; exitCode = parts ! 1; directory = parts ! 2;
            duration = parts ! 3; timestamp = parts ! 4;
            seen = (\<lambda>line. False);
            (out1, err1, seen1) = printResults os seen (globalSearch_argv command);
            (out2, err2, seen2) = printResults os seen1 (dirSearch_argv command directory)
        in (report_head command exitCode directory duration timestamp @ out1 @ out2,
            errors_Join [err1, err2]))"

section \<open>The entry point (\<^verbatim>\<open>main\<close>)\<close>

text \<open>
  \<^verbatim>\<open>main\<close> on the argument vector \<^verbatim>\<open>os.Args\<close>: the effects and the exit status.
  \<^verbatim>\<open>log.Fatal(err)\<close> prints the error and exits with status 1; returning from
  \<open>main\<close> exits with status 0.
\<close>

definition main :: "os_env \<Rightarrow> string list \<Rightarrow> effect list \<times> nat" where
  "main os Args =
     (if length Args > 1 \<and> Args ! 1 = ''--preview'' then
        (if length Args > 2 then
           (case fzfPreview os (Args ! 2) of
              (eff, Some err) \<Rightarrow> (eff @ [Log_Fatal err], 1)
            | (eff, None) \<Rightarrow> (eff, 0))
         else ([], 0))
      else
        (let initialQuery = (if length Args > 1 then Args ! 1 else []) in
         case run os initialQuery of
           (eff, Some err) \<Rightarrow> (eff @ [Log_Fatal err], 1)
         | (eff, None) \<Rightarrow> (eff, 0)))"


section \<open>Notions used to state the properties\<close>

text \<open>
  The enriched line of a text with at least five parts: the first five parts, then the
  exit marker and the directory context, joined by the delimiter.
\<close>

definition enriched :: "string \<Rightarrow> string \<Rightarrow> string" where
  "enriched curDir text =
     (let parts = Split text delim
      in Join (take 5 parts @ [exitStatus_of (parts ! 1), dirCtx_of curDir (parts ! 2)]) delim)"

text \<open>The reader takes at least \<open>n\<close> more writes.\<close>

definition takes :: "pipe \<Rightarrow> nat \<Rightarrow> bool" where
  "takes w n = (case accepts w of None \<Rightarrow> True | Some k \<Rightarrow> n \<le> k)"

text \<open>The write end after the lines \<open>ls\<close> were written, one write each.\<close>

definition after_writes :: "string list \<Rightarrow> pipe \<Rightarrow> pipe" where
  "after_writes ls w =
     w\<lparr>written := written w @ map (\<lambda>l. l @ [NL]) ls,
       attempts := attempts w + length ls,
       accepts := map_option (\<lambda>k. k - length ls) (accepts w)\<rparr>"

text \<open>
  First-seen order, as the specification words it: every element once, at the place
  of its first occurrence.
\<close>

fun first_seen :: "'a list \<Rightarrow> 'a list" where
  "first_seen [] = []"
| "first_seen (x # xs) = x # filter (\<lambda>y. y \<noteq> x) (first_seen xs)"

text \<open>What the loop of \<open>printResults\<close> prints for one line that was not seen before.\<close>

definition related_line :: "string \<Rightarrow> effect list" where
  "related_line line =
     (let parts = SplitN line [TAB] 2
      in if length parts = 2 then [Printf related_fmt [parts ! 0, parts ! 1]] else [])"

text \<open>The effects that print a related command, and those that run a search.\<close>

fun is_related :: "effect \<Rightarrow> bool" where
  "is_related (Printf f args) = (f = related_fmt)"
| "is_related e = False"

fun is_search :: "effect \<Rightarrow> bool" where
  "is_search (Cmd_Output argv) = True"
| "is_search e = False"

text \<open>Concrete surroundings for the examples.\<close>

definition broken_pipe :: error where
  "broken_pipe = ErrorString ''write |1: broken pipe''"

definition exit_status_1 :: error where
  "exit_status_1 = ErrorString ''exit status 1''"

definition fresh_pipe :: "nat option \<Rightarrow> pipe" where
  "fresh_pipe k =
     \<lparr>written = [], attempts = 0, accepts = k, write_err = broken_pipe,
      close_err = None, closed = False\<rparr>"

definition demo_os :: "(string list \<Rightarrow> error + string list) \<Rightarrow> os_env" where
  "demo_os out =
     \<lparr>StdoutPipe_res = None, Start_res = None, Pipe_res = None, Getwd_res = Inr ''/home/u'',
      Executable_res = Inr ''/bin/af'', Run_res = None, Wait_res = None, Output_res = out\<rparr>"

text \<open>
  The two searches of the specification's example: the global one returns
  \<open>a\<close> in \<open>/x\<close> and \<open>b\<close> in \<open>/y\<close>, the one of the directory \<open>b\<close> in \<open>/y\<close> and
  \<open>c\<close> in \<open>/z\<close>.
\<close>

definition demo_out :: "string list \<Rightarrow> error + string list" where
  "demo_out argv =
     (if ''--cwd'' \<in> set argv
      then Inr [''b'' @ [TAB] @ ''/y'', ''c'' @ [TAB] @ ''/z'']
      else Inr [''a'' @ [TAB] @ ''/x'', ''b'' @ [TAB] @ ''/y''])"

text \<open>Surroundings in which the global search fails and the other one answers.\<close>

definition demo_out_global_fails :: "string list \<Rightarrow> error + string list" where
  "demo_out_global_fails argv =
     (if ''--cwd'' \<in> set argv
      then Inr [''b'' @ [TAB] @ ''/y'', ''b'' @ [TAB] @ ''/y'', ''c'' @ [TAB] @ ''/z'']
      else Inl exit_status_1)"

text \<open>Surroundings in which the directory search fails, and in which both fail.\<close>

definition demo_out_dir_fails :: "string list \<Rightarrow> error + string list" where
  "demo_out_dir_fails argv =
     (if ''--cwd'' \<in> set argv
      then Inl exit_status_1
      else Inr [''a'' @ [TAB] @ ''/x'', ''a'' @ [TAB] @ ''/x''])"

definition no_history :: error where
  "no_history = ErrorString ''exit status 2''"

definition demo_out_both_fail :: "string list \<Rightarrow> error + string list" where
  "demo_out_both_fail argv = (if ''--cwd'' \<in> set argv then Inl no_history else Inl exit_status_1)"

section \<open>Splitting and joining\<close>

text \<open>
  Where \<open>Index\<close> finds the separator, the string is the part before it, the separator
  and the rest. Hence joining what \<open>genSplit\<close> returns gives the string back, however
  many parts were asked for.
\<close>

lemma Index_bound: "Index s sep = Some m \<Longrightarrow> m + length sep \<le> length s"
  by (induction s arbitrary: m) (auto dest: prefix_length_le split: if_splits)

lemma Index_split: "Index s sep = Some m \<Longrightarrow> take m s @ sep @ drop (m + length sep) s = s"
proof (induction s arbitrary: m)
  case Nil
  then show ?case by (simp split: if_splits)
next
  case (Cons c cs)
  show ?case
  proof (cases "prefix sep (c # cs)")
    case True
    then obtain zs where "c # cs = sep @ zs" by (auto simp: prefix_def)
    moreover from True Cons.prems have "m = 0" by simp
    ultimately show ?thesis by simp
  next
    case False
    with Cons.prems obtain m' where m': "Index cs sep = Some m'" "m = Suc m'"
      by auto
    with Cons.IH [OF m'(1)] show ?thesis by simp
  qed
qed

lemma genSplit_loop_ne: "genSplit_loop k s sep \<noteq> []"
  by (cases k) (auto split: option.splits)

lemma Join_Cons: "xs \<noteq> [] \<Longrightarrow> Join (x # xs) sep = x @ sep @ Join xs sep"
  by (cases xs) auto

lemma Join_genSplit_loop: "Join (genSplit_loop k s sep) sep = s"
proof (induction k arbitrary: s)
  case 0
  show ?case by simp
next
  case (Suc k)
  show ?case
  proof (cases "Index s sep")
    case None
    then show ?thesis by simp
  next
    case (Some m)
    then show ?thesis
      using Suc.IH [of "drop (m + length sep) s"] Index_split [OF Some]
      by (simp add: Join_Cons genSplit_loop_ne)
  qed
qed

lemma Join_Split: "Join (Split s sep) sep = s"
  by (simp add: Split_def genSplit_def Join_genSplit_loop Let_def)

lemma Join_SplitN: "n \<noteq> 0 \<Longrightarrow> Join (SplitN s sep n) sep = s"
  by (simp add: SplitN_def genSplit_def Join_genSplit_loop Let_def)

lemma Join_append2: "ps \<noteq> [] \<Longrightarrow> Join (ps @ [a, b]) sep = Join ps sep @ sep @ a @ sep @ b"
  by (induction ps sep rule: Join.induct) auto

text \<open>The loop body on a text with five parts or more, and on a shorter one.\<close>

lemma take5: "5 \<le> length ps \<Longrightarrow> take 5 ps = [ps ! 0, ps ! 1, ps ! 2, ps ! 3, ps ! 4]"
  by (auto simp: list_eq_iff_nth_eq nth_Cons' less_Suc_eq numeral_eq_Suc)

lemma adapt_line_ok: "5 \<le> length (Split text delim) \<Longrightarrow> adapt_line curDir text = Inr (enriched curDir text)"
  by (simp add: adapt_line_def enriched_def Let_def take5)

lemma adapt_line_short: "length (Split text delim) < 5 \<Longrightarrow> adapt_line curDir text = Inl IndexOutOfRange"
  by (simp add: adapt_line_def Let_def)

lemma enriched_five:
  assumes "length (Split text delim) = 5"
  shows "enriched curDir text =
           text @ delim @ exitStatus_of (Split text delim ! 1) @ delim
             @ dirCtx_of curDir (Split text delim ! 2)"
proof -
  from assms have ne: "Split text delim \<noteq> []" by auto
  from assms have "take 5 (Split text delim) = Split text delim" by simp
  then show ?thesis
    by (simp add: enriched_def Let_def Join_append2 [OF ne] Join_Split)
qed

section \<open>The loop of the producer\<close>

text \<open>
  While the texts have five parts and the reader takes the writes, the loop writes
  their enriched lines and goes on with the rest.
\<close>

lemma Fprintln_ok:
  "takes w (Suc n) \<Longrightarrow> Fprintln w l = (None, after_writes [l] w) \<and> takes (after_writes [l] w) n"
  by (auto simp: Fprintln_def takes_def after_writes_def split: option.splits nat.splits)

lemma Fprintln_fail:
  "accepts w = Some 0 \<Longrightarrow> Fprintln w l = (Some (write_err w), w\<lparr>attempts := Suc (attempts w)\<rparr>)"
  by (simp add: Fprintln_def)

lemma after_writes_Cons: "after_writes ls (after_writes [l] w) = after_writes (l # ls) w"
  by (cases "accepts w") (simp_all add: after_writes_def)

lemma after_writes_Nil: "after_writes [] w = w"
  by (cases "accepts w") (simp_all add: after_writes_def)

lemma producer_loop_append:
  "\<forall>t\<in>set pre. 5 \<le> length (Split t delim) \<Longrightarrow> takes w (length pre) \<Longrightarrow>
   producer_loop curDir (pre @ rest) w
     = producer_loop curDir rest (after_writes (map (enriched curDir) pre) w)"
proof (induction pre arbitrary: w)
  case Nil
  show ?case by (simp add: after_writes_Nil)
next
  case (Cons t pre)
  from Cons.prems(2) have ok: "Fprintln w (enriched curDir t) = (None, after_writes [enriched curDir t] w)"
    and tk: "takes (after_writes [enriched curDir t] w) (length pre)"
    using Fprintln_ok [of w "length pre" "enriched curDir t"] by simp_all
  from Cons.prems(1) have "adapt_line curDir t = Inr (enriched curDir t)"
    by (simp add: adapt_line_ok)
  then show ?case
    using ok Cons.IH [OF _ tk] Cons.prems(1)
    by (simp add: after_writes_Cons)
qed

text \<open>
  Whatever the texts and the reader do, what the loop has written is the enriched lines
  of the first \<open>n\<close> texts, in their order, for some \<open>n\<close>.
\<close>

lemma producer_loop_written:
  "\<exists>n\<le>length toks. written (snd (producer_loop curDir toks w))
      = written w @ map (\<lambda>t. enriched curDir t @ [NL]) (take n toks)"
proof (induction toks arbitrary: w)
  case Nil
  show ?case by simp
next
  case (Cons t toks)
  show ?case
  proof (cases "adapt_line curDir t")
    case (Inl pv)
    then have "written (snd (producer_loop curDir (t # toks) w))
      = written w @ map (\<lambda>t. enriched curDir t @ [NL]) (take 0 (t # toks))" by simp
    then show ?thesis by blast
  next
    case (Inr line)
    then have line: "line = enriched curDir t"
      by (cases "length (Split t delim) < 5") (simp_all add: adapt_line_short adapt_line_ok)
    show ?thesis
    proof (cases "fst (Fprintln w line)")
      case (Some err)
      then have "written (snd (Fprintln w line)) = written w"
        by (auto simp: Fprintln_def split: option.splits nat.splits)
      with Some Inr have "written (snd (producer_loop curDir (t # toks) w))
        = written w @ map (\<lambda>t. enriched curDir t @ [NL]) (take 0 (t # toks))"
        by (simp add: case_prod_beta)
      then show ?thesis by blast
    next
      case None
      then have w': "written (snd (Fprintln w line)) = written w @ [line @ [NL]]"
        by (auto simp: Fprintln_def split: option.splits nat.splits)
      from Cons.IH [of "snd (Fprintln w line)"] obtain n where n: "n \<le> length toks"
        "written (snd (producer_loop curDir toks (snd (Fprintln w line))))
          = written (snd (Fprintln w line)) @ map (\<lambda>t. enriched curDir t @ [NL]) (take n toks)"
        by blast
      from None Inr n(2) w' line
      have "written (snd (producer_loop curDir (t # toks) w))
        = written w @ map (\<lambda>t. enriched curDir t @ [NL]) (take (Suc n) (t # toks))"
        by (simp add: case_prod_beta)
      with n(1) show ?thesis
        by (metis Suc_le_mono length_Cons)
    qed
  qed
qed

section \<open>The loop of the preview renderer\<close>

text \<open>
  \<open>first_seen\<close> keeps every element once. The loop of \<open>printResults\<close> prints the
  lines not seen before in first-seen order and marks them as seen.
\<close>

lemma set_first_seen: "set (first_seen xs) = set xs"
  by (induction xs) auto

lemma distinct_first_seen: "distinct (first_seen xs)"
  by (induction xs) (auto simp: set_first_seen)

lemma first_seen_append:
  "first_seen (xs @ ys) = first_seen xs @ filter (\<lambda>y. y \<notin> set xs) (first_seen ys)"
proof (induction xs)
  case Nil
  show ?case by simp
next
  case (Cons x xs)
  have "filter (\<lambda>y. y \<noteq> x) (first_seen xs @ filter (\<lambda>y. y \<notin> set xs) (first_seen ys))
      = filter (\<lambda>y. y \<noteq> x) (first_seen xs) @ filter (\<lambda>y. y \<notin> set (x # xs)) (first_seen ys)"
    by (auto intro: filter_cong)
  with Cons.IH show ?case by simp
qed

lemma printResults_loop_new:
  "\<not> seen line \<Longrightarrow>
   printResults_loop seen (line # rest)
     = (related_line line @ fst (printResults_loop (seen(line := True)) rest),
        snd (printResults_loop (seen(line := True)) rest))"
  by (simp add: related_line_def Let_def case_prod_beta)

lemma printResults_loop_eq:
  "printResults_loop seen lines
     = (concat (map related_line (filter (\<lambda>l. \<not> seen l) (first_seen lines))),
        (\<lambda>l. seen l \<or> l \<in> set lines))"
proof (induction lines arbitrary: seen)
  case Nil
  show ?case by simp
next
  case (Cons line rest)
  show ?case
  proof (cases "seen line")
    case True
    then have "filter (\<lambda>l. \<not> seen l) (filter (\<lambda>y. y \<noteq> line) (first_seen rest))
             = filter (\<lambda>l. \<not> seen l) (first_seen rest)"
      by (auto intro: filter_cong)
    moreover from True have "(\<lambda>l. seen l \<or> l \<in> set rest) = (\<lambda>l. seen l \<or> l \<in> set (line # rest))"
      by auto
    ultimately show ?thesis
      using True Cons.IH [of seen] by simp
  next
    case False
    have f: "filter (\<lambda>l. \<not> (seen(line := True)) l) (first_seen rest)
             = filter (\<lambda>l. \<not> seen l) (filter (\<lambda>y. y \<noteq> line) (first_seen rest))"
      by (auto intro: filter_cong)
    have g: "(\<lambda>l. (seen(line := True)) l \<or> l \<in> set rest)
             = (\<lambda>l. seen l \<or> l \<in> set (line # rest))"
      by auto
    have "printResults_loop (seen(line := True)) rest
            = (concat (map related_line
                 (filter (\<lambda>l. \<not> seen l) (filter (\<lambda>y. y \<noteq> line) (first_seen rest)))),
               (\<lambda>l. seen l \<or> l \<in> set (line # rest)))"
      unfolding Cons.IH [of "seen(line := True)"] f g ..
    then show ?thesis
      using False by (simp add: printResults_loop_new del: printResults_loop.simps)
  qed
qed

lemma related_line_related: "filter is_related (related_line l) = related_line l"
  by (simp add: related_line_def Let_def)

lemma related_line_search: "filter is_search (related_line l) = []"
  by (simp add: related_line_def Let_def)

lemma concat_related_related:
  "filter is_related (concat (map related_line ls)) = concat (map related_line ls)"
  by (induction ls) (simp_all add: related_line_related)

lemma concat_related_search:
  "filter is_search (concat (map related_line ls)) = []"
  by (induction ls) (simp_all add: related_line_search)

lemma report_head_related:
  "filter is_related (report_head command exitCode directory duration timestamp) = []"
  by (simp add: report_head_def field_fmt_def related_fmt_def Let_def)

lemma report_head_search:
  "filter is_search (report_head command exitCode directory duration timestamp) = []"
  by (simp add: report_head_def Let_def)

text \<open>A printed related command determines the line it was printed for.\<close>

lemma related_line_key:
  assumes "e \<in> set (related_line l)"
  shows "\<exists>c d. e = Printf related_fmt [c, d] \<and> l = c @ [TAB] @ d"
proof -
  from assms have len: "length (SplitN l [TAB] 2) = 2"
    and e: "e = Printf related_fmt [SplitN l [TAB] 2 ! 0, SplitN l [TAB] 2 ! 1]"
    by (auto simp: related_line_def Let_def split: if_splits)
  from len obtain c d where cd: "SplitN l [TAB] 2 = [c, d]"
    by (cases "SplitN l [TAB] 2") (auto simp: length_Suc_conv)
  have "Join (SplitN l [TAB] 2) [TAB] = l"
    by (rule Join_SplitN) simp
  with cd have "l = c @ [TAB] @ d" by simp
  with e cd show ?thesis by simp
qed

lemma distinct_related:
  "distinct ls \<Longrightarrow> distinct (concat (map related_line ls))"
proof (induction ls)
  case Nil
  show ?case by simp
next
  case (Cons l ls)
  have one: "distinct (related_line l)"
    by (simp add: related_line_def Let_def)
  have "set (related_line l) \<inter> set (concat (map related_line ls)) = {}"
  proof (rule ccontr)
    assume "set (related_line l) \<inter> set (concat (map related_line ls)) \<noteq> {}"
    then obtain e l' where e: "e \<in> set (related_line l)" and l': "l' \<in> set ls"
      and e': "e \<in> set (related_line l')"
      by auto
    from related_line_key [OF e] related_line_key [OF e'] have "l = l'" by auto
    with l' Cons.prems show False by simp
  qed
  with one Cons show ?case by simp
qed

lemma fzfPreview_ok:
  assumes "5 \<le> length (Split data delim)"
  shows "fzfPreview os data =
     (let parts = Split data delim;
          r1 = printResults os (\<lambda>line. False) (globalSearch_argv (parts ! 0));
          r2 = printResults os (snd (snd r1)) (dirSearch_argv (parts ! 0) (parts ! 2))
      in (report_head (parts ! 0) (parts ! 1) (parts ! 2) (parts ! 3) (parts ! 4)
            @ fst r1 @ fst r2,
          errors_Join [fst (snd r1), fst (snd r2)]))"
  using assms by (simp add: fzfPreview_def Let_def case_prod_beta)

lemma printResults_Inl:
  "Output_res os argv = Inl err \<Longrightarrow> printResults os seen argv = ([Cmd_Output argv], Some err, seen)"
  by (simp add: printResults_def)

lemma printResults_Inr:
  "Output_res os argv = Inr lines \<Longrightarrow>
   printResults os seen argv
     = (Cmd_Output argv # concat (map related_line (filter (\<lambda>l. \<not> seen l) (first_seen lines))),
        None, (\<lambda>l. seen l \<or> l \<in> set lines))"
  by (simp add: printResults_def printResults_loop_eq)

lemma printResults_search:
  "filter is_search (fst (printResults os seen argv)) = [Cmd_Output argv]"
  by (cases "Output_res os argv")
     (simp_all add: printResults_Inl printResults_Inr concat_related_search)

section \<open>The claims\<close>

text \<open>
  C8. For every text that splits into exactly five parts, joining the parts gives the
  text back, and the line the adapter hands to the pipe is the five parts, unchanged
  and in order, followed by the exit marker and the directory context, all joined by
  the delimiter: the text, the delimiter, the exit marker, the delimiter and the
  directory context.
\<close>

theorem parse_serialize_roundtrip:
  assumes "length (Split text delim) = 5"
  shows "Join (Split text delim) delim = text
       \<and> adapt_line curDir text
           = Inr (Join (Split text delim
                          @ [exitStatus_of (Split text delim ! 1),
                             dirCtx_of curDir (Split text delim ! 2)]) delim)
       \<and> adapt_line curDir text
           = Inr (text @ delim @ exitStatus_of (Split text delim ! 1) @ delim
                    @ dirCtx_of curDir (Split text delim ! 2))"
proof -
  from assms have five: "take 5 (Split text delim) = Split text delim" by simp
  from assms have ok: "adapt_line curDir text = Inr (enriched curDir text)"
    by (simp add: adapt_line_ok)
  have "enriched curDir text
          = Join (Split text delim
                    @ [exitStatus_of (Split text delim ! 1),
                       dirCtx_of curDir (Split text delim ! 2)]) delim"
    by (simp add: enriched_def Let_def five)
  with ok enriched_five [OF assms, of curDir] show ?thesis
    by (simp add: Join_Split)
qed

theorem parse_serialize_roundtrip_witness:
  "length (Split ''make:::2:::/src:::3s:::10:42'' delim) = 5
   \<and> Split ''make:::2:::/src:::3s:::10:42'' delim = [''make'', ''2'', ''/src'', ''3s'', ''10:42'']
   \<and> adapt_line ''/home/u'' ''make:::2:::/src:::3s:::10:42''
       = Inr (''make:::2:::/src:::3s:::10:42:::'' @ [ESC] @ ''[38;5;1mexit 2'' @ [ESC] @ ''[0m:::'')"
proof -
  have s: "Split ''make:::2:::/src:::3s:::10:42'' delim = [''make'', ''2'', ''/src'', ''3s'', ''10:42'']"
    by code_simp
  then have h: "length (Split ''make:::2:::/src:::3s:::10:42'' delim) = 5" by simp
  from parse_serialize_roundtrip [OF h, of "''/home/u''"] s h show ?thesis
    by (simp add: exitStatus_of_def dirCtx_of_def Foreground_def Red_def fmt_d_def digit_char_def delim_def)
qed

text \<open>
  C7. For every text with at least five parts the adapter writes the five parts followed
  by the exit marker and the directory context. The exit marker is the single blank
  exactly when the exit code is \<open>0\<close>; otherwise it is the red \<open>exit\<close> text, which
  contains the exit code literally. The directory context is non-empty exactly when
  the directory of the record equals the working directory that was captured.
\<close>

theorem derived_fields:
  assumes "5 \<le> length (Split text delim)"
  shows "adapt_line curDir text
           = Inr (Join [Split text delim ! 0, Split text delim ! 1, Split text delim ! 2,
                        Split text delim ! 3, Split text delim ! 4,
                        exitStatus_of (Split text delim ! 1),
                        dirCtx_of curDir (Split text delim ! 2)] delim)
       \<and> ((exitStatus_of (Split text delim ! 1) = '' '') = (Split text delim ! 1 = ''0''))
       \<and> (Split text delim ! 1 \<noteq> ''0'' \<longrightarrow>
            exitStatus_of (Split text delim ! 1)
              = Foreground Red (''exit '' @ Split text delim ! 1)
            \<and> sublist (Split text delim ! 1) (exitStatus_of (Split text delim ! 1)))
       \<and> ((dirCtx_of curDir (Split text delim ! 2) \<noteq> []) = (Split text delim ! 2 = curDir))"
proof -
  have line: "adapt_line curDir text
           = Inr (Join [Split text delim ! 0, Split text delim ! 1, Split text delim ! 2,
                        Split text delim ! 3, Split text delim ! 4,
                        exitStatus_of (Split text delim ! 1),
                        dirCtx_of curDir (Split text delim ! 2)] delim)"
    using assms by (simp add: adapt_line_def Let_def)
  have blank: "(exitStatus_of c = '' '') = (c = ''0'')" for c
    by (simp add: exitStatus_of_def Foreground_def ESC_def)
  have lit: "sublist c (exitStatus_of c)" if "c \<noteq> ''0''" for c
  proof -
    from that have "exitStatus_of c
        = ([ESC] @ ''[38;5;'' @ fmt_d Red @ ''mexit '') @ c @ ([ESC] @ ''[0m'')"
      by (simp add: exitStatus_of_def Foreground_def)
    then show ?thesis
      unfolding sublist_def by blast
  qed
  have ctx: "(dirCtx_of curDir d \<noteq> []) = (d = curDir)" for d
    by (simp add: dirCtx_of_def)
  from line blank lit ctx show ?thesis
    by (simp add: exitStatus_of_def)
qed

theorem derived_fields_witness:
  "5 \<le> length (Split ''make:::2:::/home/u:::3s:::10:42'' delim)
   \<and> exitStatus_of ''2'' = [ESC] @ ''[38;5;1mexit 2'' @ [ESC] @ ''[0m''
   \<and> sublist ''2'' (exitStatus_of ''2'')
   \<and> dirCtx_of ''/home/u'' ''/home/u'' \<noteq> []"
proof -
  have s: "Split ''make:::2:::/home/u:::3s:::10:42'' delim
             = [''make'', ''2'', ''/home/u'', ''3s'', ''10:42'']"
    by code_simp
  then have h: "5 \<le> length (Split ''make:::2:::/home/u:::3s:::10:42'' delim)" by simp
  have n1: "[''make'', ''2'', ''/home/u'', ''3s'', ''10:42''] ! 1 = ''2''"
    and n2: "[''make'', ''2'', ''/home/u'', ''3s'', ''10:42''] ! 2 = ''/home/u''"
    by simp_all
  note d = derived_fields [OF h, of "''/home/u''", unfolded s n1 n2]
  have ne: "''2'' \<noteq> ''0''" by simp
  from d ne have "exitStatus_of ''2'' = Foreground Red (''exit '' @ ''2'')" by blast
  then have a: "exitStatus_of ''2'' = [ESC] @ ''[38;5;1mexit 2'' @ [ESC] @ ''[0m''"
    by (simp add: Foreground_def Red_def fmt_d_def digit_char_def)
  from d ne have b: "sublist ''2'' (exitStatus_of ''2'')" by blast
  from d have c: "dirCtx_of ''/home/u'' ''/home/u'' \<noteq> []" by blast
  from h a b c show ?thesis by blast
qed

text \<open>
  C2. When every text the scanner delivers has exactly five parts, the scanner ends
  without an error, the reader takes every write and the pipe closes, the producer
  finishes, and what it has written is one line for each text, in the order of the
  texts: the text, the delimiter, its exit marker, the delimiter, its directory
  context and a newline. Three texts give three lines.
\<close>

theorem adapter_emits_each_line_in_order:
  assumes "\<forall>t\<in>set toks. length (Split t delim) = 5"
    and "takes w (length toks)"
    and "close_err w = None"
  shows "producer curDir \<lparr>tokens = toks, scan_err = None\<rparr> w
           = (Finished, (after_writes (map (enriched curDir) toks) w)\<lparr>closed := True\<rparr>)
       \<and> written (snd (producer curDir \<lparr>tokens = toks, scan_err = None\<rparr> w))
           = written w
             @ map (\<lambda>t. t @ delim @ exitStatus_of (Split t delim ! 1) @ delim
                          @ dirCtx_of curDir (Split t delim ! 2) @ [NL]) toks
       \<and> length (written (snd (producer curDir \<lparr>tokens = toks, scan_err = None\<rparr> w)))
           = length (written w) + length toks"
proof -
  from assms(1) have wf: "\<forall>t\<in>set toks. 5 \<le> length (Split t delim)" by simp
  have loop: "producer_loop curDir toks w
                = (None, after_writes (map (enriched curDir) toks) w)"
    using producer_loop_append [OF wf assms(2), of curDir "[]"] by simp
  have cl: "close_err (after_writes (map (enriched curDir) toks) w) = None"
    using assms(3) by (simp add: after_writes_def)
  have run: "producer curDir \<lparr>tokens = toks, scan_err = None\<rparr> w
           = (Finished, (after_writes (map (enriched curDir) toks) w)\<lparr>closed := True\<rparr>)"
    by (simp add: producer_def loop Close_def cl)
  have lines: "map (\<lambda>l. l @ [NL]) (map (enriched curDir) toks)
      = map (\<lambda>t. t @ delim @ exitStatus_of (Split t delim ! 1) @ delim
                          @ dirCtx_of curDir (Split t delim ! 2) @ [NL]) toks"
    using assms(1) by (simp add: enriched_five)
  have wr: "written (snd (producer curDir \<lparr>tokens = toks, scan_err = None\<rparr> w))
           = written w
             @ map (\<lambda>t. t @ delim @ exitStatus_of (Split t delim ! 1) @ delim
                          @ dirCtx_of curDir (Split t delim ! 2) @ [NL]) toks"
    unfolding run using lines by (simp add: after_writes_def)
  from run wr show ?thesis by simp
qed

theorem adapter_emits_each_line_in_order_witness:
  "length (Split ''ls:::0:::/home/u:::1s:::t1'' delim) = 5
   \<and> length (Split ''make:::2:::/src:::3s:::t2'' delim) = 5
   \<and> length (Split ''pwd:::0:::/:::0s:::t3'' delim) = 5
   \<and> takes (fresh_pipe None) 3
   \<and> close_err (fresh_pipe None) = None
   \<and> fst (producer ''/home/u''
        \<lparr>tokens = [''ls:::0:::/home/u:::1s:::t1'', ''make:::2:::/src:::3s:::t2'',
                   ''pwd:::0:::/:::0s:::t3''],
         scan_err = None\<rparr> (fresh_pipe None)) = Finished
   \<and> written (snd (producer ''/home/u''
        \<lparr>tokens = [''ls:::0:::/home/u:::1s:::t1'', ''make:::2:::/src:::3s:::t2'',
                   ''pwd:::0:::/:::0s:::t3''],
         scan_err = None\<rparr> (fresh_pipe None)))
       = [''ls:::0:::/home/u:::1s:::t1::: ::: '' @ [ESC] @ ''[38;5;242m(current dir)''
            @ [ESC] @ ''[0m'' @ [NL],
          ''make:::2:::/src:::3s:::t2:::'' @ [ESC] @ ''[38;5;1mexit 2'' @ [ESC] @ ''[0m:::''
            @ [NL],
          ''pwd:::0:::/:::0s:::t3::: :::'' @ [NL]]"
proof -
  have s1: "Split ''ls:::0:::/home/u:::1s:::t1'' delim = [''ls'', ''0'', ''/home/u'', ''1s'', ''t1'']"
    by code_simp
  have s2: "Split ''make:::2:::/src:::3s:::t2'' delim = [''make'', ''2'', ''/src'', ''3s'', ''t2'']"
    by code_simp
  have s3: "Split ''pwd:::0:::/:::0s:::t3'' delim = [''pwd'', ''0'', ''/'', ''0s'', ''t3'']"
    by code_simp
  have wf: "\<forall>t\<in>set [''ls:::0:::/home/u:::1s:::t1'', ''make:::2:::/src:::3s:::t2'',
                      ''pwd:::0:::/:::0s:::t3'']. length (Split t delim) = 5"
    by (simp add: s1 s2 s3)
  have tk: "takes (fresh_pipe None)
              (length [''ls:::0:::/home/u:::1s:::t1'', ''make:::2:::/src:::3s:::t2'',
                       ''pwd:::0:::/:::0s:::t3''])"
    by (simp add: takes_def fresh_pipe_def)
  have cl: "close_err (fresh_pipe None) = None"
    by (simp add: fresh_pipe_def)
  note r = adapter_emits_each_line_in_order [OF wf tk cl, of "''/home/u''"]
  from r have fin: "fst (producer ''/home/u''
        \<lparr>tokens = [''ls:::0:::/home/u:::1s:::t1'', ''make:::2:::/src:::3s:::t2'',
                   ''pwd:::0:::/:::0s:::t3''],
         scan_err = None\<rparr> (fresh_pipe None)) = Finished"
    by simp
  have lines: "written (fresh_pipe None)
        @ map (\<lambda>t. t @ delim @ exitStatus_of (Split t delim ! 1) @ delim
                     @ dirCtx_of ''/home/u'' (Split t delim ! 2) @ [NL])
            [''ls:::0:::/home/u:::1s:::t1'', ''make:::2:::/src:::3s:::t2'',
             ''pwd:::0:::/:::0s:::t3'']
       = [''ls:::0:::/home/u:::1s:::t1::: ::: '' @ [ESC] @ ''[38;5;242m(current dir)''
            @ [ESC] @ ''[0m'' @ [NL],
          ''make:::2:::/src:::3s:::t2:::'' @ [ESC] @ ''[38;5;1mexit 2'' @ [ESC] @ ''[0m:::''
            @ [NL],
          ''pwd:::0:::/:::0s:::t3::: :::'' @ [NL]]"
    by (simp add: s1 s2 s3 fresh_pipe_def)
      (simp add: exitStatus_of_def dirCtx_of_def Foreground_def Red_def fmt_d_def
         digit_char_def delim_def)
  have wr: "written (snd (producer ''/home/u''
        \<lparr>tokens = [''ls:::0:::/home/u:::1s:::t1'', ''make:::2:::/src:::3s:::t2'',
                   ''pwd:::0:::/:::0s:::t3''],
         scan_err = None\<rparr> (fresh_pipe None)))
       = [''ls:::0:::/home/u:::1s:::t1::: ::: '' @ [ESC] @ ''[38;5;242m(current dir)''
            @ [ESC] @ ''[0m'' @ [NL],
          ''make:::2:::/src:::3s:::t2:::'' @ [ESC] @ ''[38;5;1mexit 2'' @ [ESC] @ ''[0m:::''
            @ [NL],
          ''pwd:::0:::/:::0s:::t3::: :::'' @ [NL]]"
    by (rule trans [OF r [THEN conjunct2, THEN conjunct1] lines])
  from s1 s2 s3 have l: "length (Split ''ls:::0:::/home/u:::1s:::t1'' delim) = 5"
    "length (Split ''make:::2:::/src:::3s:::t2'' delim) = 5"
    "length (Split ''pwd:::0:::/:::0s:::t3'' delim) = 5"
    by simp_all
  have tk3: "takes (fresh_pipe None) 3" by (simp add: takes_def fresh_pipe_def)
  from l tk3 cl fin wr show ?thesis by blast
qed

text \<open>
  C1, as the code has it. When the reader closes its end after \<open>k\<close> writes and more
  than \<open>k\<close> texts come, the producer stops at the first write that fails: it has
  written the first \<open>k\<close> lines, has attempted \<open>k + 1\<close> writes and no more, and has not
  closed the pipe. It does not end quietly: it panics with the error of the write.
\<close>

theorem producer_panics_on_write_failure:
  assumes "accepts w = Some k"
    and "k < length toks"
    and "\<forall>t\<in>set (take (Suc k) toks). 5 \<le> length (Split t delim)"
  shows "fst (producer curDir \<lparr>tokens = toks, scan_err = serr\<rparr> w)
           = Panicked (PanicError (write_err w))
       \<and> written (snd (producer curDir \<lparr>tokens = toks, scan_err = serr\<rparr> w))
           = written w @ map (\<lambda>t. enriched curDir t @ [NL]) (take k toks)
       \<and> attempts (snd (producer curDir \<lparr>tokens = toks, scan_err = serr\<rparr> w))
           = attempts w + Suc k
       \<and> closed (snd (producer curDir \<lparr>tokens = toks, scan_err = serr\<rparr> w)) = closed w"
proof -
  define pre where "pre = take k toks"
  define w' where "w' = after_writes (map (enriched curDir) pre) w"
  from assms(2) have toks: "toks = pre @ (toks ! k) # drop (Suc k) toks"
    unfolding pre_def by (rule id_take_nth_drop)
  from assms(2) have len: "length pre = k"
    by (simp add: pre_def)
  from assms(2) have tk_Suc: "take (Suc k) toks = pre @ [toks ! k]"
    unfolding pre_def by (rule take_Suc_conv_app_nth)
  from assms(3) have wf: "\<forall>t\<in>set pre. 5 \<le> length (Split t delim)"
    unfolding tk_Suc by simp
  from assms(3) have ok: "adapt_line curDir (toks ! k) = Inr (enriched curDir (toks ! k))"
    unfolding tk_Suc by (simp add: adapt_line_ok)
  from assms(1) len have tk: "takes w (length pre)"
    by (simp add: takes_def)
  from assms(1) len have acc: "accepts w' = Some 0"
    by (simp add: w'_def after_writes_def)
  have "producer_loop curDir toks w = producer_loop curDir ((toks ! k) # drop (Suc k) toks) w'"
    unfolding w'_def using producer_loop_append [OF wf tk, of curDir] toks by metis
  also have "\<dots> = (Some (PanicError (write_err w')), w'\<lparr>attempts := Suc (attempts w')\<rparr>)"
    by (simp add: ok Fprintln_fail [OF acc])
  finally have "producer curDir \<lparr>tokens = toks, scan_err = serr\<rparr> w
      = (Panicked (PanicError (write_err w')), w'\<lparr>attempts := Suc (attempts w')\<rparr>)"
    by (simp add: producer_def)
  then show ?thesis
    using assms(2) by (simp add: w'_def after_writes_def pre_def)
qed

theorem producer_panics_on_write_failure_witness:
  "accepts (fresh_pipe (Some 2)) = Some 2
   \<and> 2 < length [''ls:::0:::/home/u:::1s:::t1'', ''make:::2:::/src:::3s:::t2'',
                  ''pwd:::0:::/:::0s:::t3'', ''id:::0:::/:::0s:::t4'']
   \<and> 5 \<le> length (Split ''ls:::0:::/home/u:::1s:::t1'' delim)
   \<and> 5 \<le> length (Split ''make:::2:::/src:::3s:::t2'' delim)
   \<and> 5 \<le> length (Split ''pwd:::0:::/:::0s:::t3'' delim)
   \<and> fst (producer ''/home/u''
        \<lparr>tokens = [''ls:::0:::/home/u:::1s:::t1'', ''make:::2:::/src:::3s:::t2'',
                   ''pwd:::0:::/:::0s:::t3'', ''id:::0:::/:::0s:::t4''],
         scan_err = None\<rparr> (fresh_pipe (Some 2)))
       = Panicked (PanicError broken_pipe)
   \<and> length (written (snd (producer ''/home/u''
        \<lparr>tokens = [''ls:::0:::/home/u:::1s:::t1'', ''make:::2:::/src:::3s:::t2'',
                   ''pwd:::0:::/:::0s:::t3'', ''id:::0:::/:::0s:::t4''],
         scan_err = None\<rparr> (fresh_pipe (Some 2))))) = 2
   \<and> attempts (snd (producer ''/home/u''
        \<lparr>tokens = [''ls:::0:::/home/u:::1s:::t1'', ''make:::2:::/src:::3s:::t2'',
                   ''pwd:::0:::/:::0s:::t3'', ''id:::0:::/:::0s:::t4''],
         scan_err = None\<rparr> (fresh_pipe (Some 2)))) = 3
   \<and> closed (snd (producer ''/home/u''
        \<lparr>tokens = [''ls:::0:::/home/u:::1s:::t1'', ''make:::2:::/src:::3s:::t2'',
                   ''pwd:::0:::/:::0s:::t3'', ''id:::0:::/:::0s:::t4''],
         scan_err = None\<rparr> (fresh_pipe (Some 2)))) = False"
proof -
  have s1: "Split ''ls:::0:::/home/u:::1s:::t1'' delim = [''ls'', ''0'', ''/home/u'', ''1s'', ''t1'']"
    by code_simp
  have s2: "Split ''make:::2:::/src:::3s:::t2'' delim = [''make'', ''2'', ''/src'', ''3s'', ''t2'']"
    by code_simp
  have s3: "Split ''pwd:::0:::/:::0s:::t3'' delim = [''pwd'', ''0'', ''/'', ''0s'', ''t3'']"
    by code_simp
  have acc: "accepts (fresh_pipe (Some 2)) = Some 2"
    by (simp add: fresh_pipe_def)
  have lt: "2 < length [''ls:::0:::/home/u:::1s:::t1'', ''make:::2:::/src:::3s:::t2'',
                        ''pwd:::0:::/:::0s:::t3'', ''id:::0:::/:::0s:::t4'']"
    by simp
  have wf: "\<forall>t\<in>set (take (Suc 2) [''ls:::0:::/home/u:::1s:::t1'', ''make:::2:::/src:::3s:::t2'',
                        ''pwd:::0:::/:::0s:::t3'', ''id:::0:::/:::0s:::t4'']).
              5 \<le> length (Split t delim)"
    by (simp add: s1 s2 s3 numeral_2_eq_2)
  note r = producer_panics_on_write_failure [OF acc lt wf, of "''/home/u''" None]
  from r have a: "fst (producer ''/home/u''
        \<lparr>tokens = [''ls:::0:::/home/u:::1s:::t1'', ''make:::2:::/src:::3s:::t2'',
                   ''pwd:::0:::/:::0s:::t3'', ''id:::0:::/:::0s:::t4''],
         scan_err = None\<rparr> (fresh_pipe (Some 2)))
       = Panicked (PanicError broken_pipe)"
    by (simp add: fresh_pipe_def)
  from r have b: "length (written (snd (producer ''/home/u''
        \<lparr>tokens = [''ls:::0:::/home/u:::1s:::t1'', ''make:::2:::/src:::3s:::t2'',
                   ''pwd:::0:::/:::0s:::t3'', ''id:::0:::/:::0s:::t4''],
         scan_err = None\<rparr> (fresh_pipe (Some 2))))) = 2"
    by (simp add: fresh_pipe_def)
  from r have c: "attempts (snd (producer ''/home/u''
        \<lparr>tokens = [''ls:::0:::/home/u:::1s:::t1'', ''make:::2:::/src:::3s:::t2'',
                   ''pwd:::0:::/:::0s:::t3'', ''id:::0:::/:::0s:::t4''],
         scan_err = None\<rparr> (fresh_pipe (Some 2)))) = 3"
    by (simp add: fresh_pipe_def)
  from r have d: "closed (snd (producer ''/home/u''
        \<lparr>tokens = [''ls:::0:::/home/u:::1s:::t1'', ''make:::2:::/src:::3s:::t2'',
                   ''pwd:::0:::/:::0s:::t3'', ''id:::0:::/:::0s:::t4''],
         scan_err = None\<rparr> (fresh_pipe (Some 2)))) = False"
    by (simp add: fresh_pipe_def)
  from s1 s2 s3 have l: "5 \<le> length (Split ''ls:::0:::/home/u:::1s:::t1'' delim)"
    "5 \<le> length (Split ''make:::2:::/src:::3s:::t2'' delim)"
    "5 \<le> length (Split ''pwd:::0:::/:::0s:::t3'' delim)"
    by simp_all
  from acc lt l a b c d show ?thesis by blast
qed

text \<open>
  C1, as stated, fails: with two texts and a reader that takes one write, the producer
  ends in a panic carrying the broken-pipe error, not in a normal finish.
\<close>

theorem producer_write_failure_not_benign:
  "fst (producer ''/home/u''
          \<lparr>tokens = [''ls:::0:::/home/u:::1s:::t1'', ''pwd:::0:::/:::0s:::t2''],
           scan_err = None\<rparr> (fresh_pipe (Some 1)))
     = Panicked (PanicError broken_pipe)
   \<and> fst (producer ''/home/u''
          \<lparr>tokens = [''ls:::0:::/home/u:::1s:::t1'', ''pwd:::0:::/:::0s:::t2''],
           scan_err = None\<rparr> (fresh_pipe (Some 1)))
     \<noteq> Finished"
  by code_simp

text \<open>
  C4. A text with fewer than five parts is not checked: indexing its parts panics. If
  the texts before it were written, the producer ends with the index panic at that
  text, having written only the lines before it; the text is neither skipped nor
  reported, the texts after it are never read, and the pipe is not closed.
\<close>

theorem short_line_panics:
  assumes "\<forall>t\<in>set pre. 5 \<le> length (Split t delim)"
    and "takes w (length pre)"
    and "length (Split bad delim) < 5"
  shows "adapt_line curDir bad = Inl IndexOutOfRange
       \<and> producer curDir \<lparr>tokens = pre @ bad # post, scan_err = serr\<rparr> w
           = (Panicked IndexOutOfRange, after_writes (map (enriched curDir) pre) w)
       \<and> written (snd (producer curDir \<lparr>tokens = pre @ bad # post, scan_err = serr\<rparr> w))
           = written w @ map (\<lambda>t. enriched curDir t @ [NL]) pre
       \<and> closed (snd (producer curDir \<lparr>tokens = pre @ bad # post, scan_err = serr\<rparr> w))
           = closed w"
proof -
  from assms(3) have bad: "adapt_line curDir bad = Inl IndexOutOfRange"
    by (rule adapt_line_short)
  have "producer_loop curDir (pre @ bad # post) w
          = producer_loop curDir (bad # post) (after_writes (map (enriched curDir) pre) w)"
    by (rule producer_loop_append [OF assms(1) assms(2)])
  also have "\<dots> = (Some IndexOutOfRange, after_writes (map (enriched curDir) pre) w)"
    by (simp add: bad)
  finally have "producer curDir \<lparr>tokens = pre @ bad # post, scan_err = serr\<rparr> w
           = (Panicked IndexOutOfRange, after_writes (map (enriched curDir) pre) w)"
    by (simp add: producer_def)
  with bad show ?thesis
    by (simp add: after_writes_def)
qed

theorem short_line_panics_witness:
  "5 \<le> length (Split ''ls:::0:::/home/u:::1s:::t1'' delim)
   \<and> takes (fresh_pipe None) 1
   \<and> length (Split ''make:::2:::/src:::3s'' delim) < 5
   \<and> producer ''/home/u''
        \<lparr>tokens = [''ls:::0:::/home/u:::1s:::t1'', ''make:::2:::/src:::3s'',
                   ''pwd:::0:::/:::0s:::t3''],
         scan_err = None\<rparr> (fresh_pipe None)
       = (Panicked IndexOutOfRange,
          after_writes [enriched ''/home/u'' ''ls:::0:::/home/u:::1s:::t1''] (fresh_pipe None))
   \<and> length (written (snd (producer ''/home/u''
        \<lparr>tokens = [''ls:::0:::/home/u:::1s:::t1'', ''make:::2:::/src:::3s'',
                   ''pwd:::0:::/:::0s:::t3''],
         scan_err = None\<rparr> (fresh_pipe None)))) = 1"
proof -
  have s1: "Split ''ls:::0:::/home/u:::1s:::t1'' delim = [''ls'', ''0'', ''/home/u'', ''1s'', ''t1'']"
    by code_simp
  have s2: "Split ''make:::2:::/src:::3s'' delim = [''make'', ''2'', ''/src'', ''3s'']"
    by code_simp
  have wf: "\<forall>t\<in>set [''ls:::0:::/home/u:::1s:::t1'']. 5 \<le> length (Split t delim)"
    by (simp add: s1)
  have tk: "takes (fresh_pipe None) (length [''ls:::0:::/home/u:::1s:::t1''])"
    by (simp add: takes_def fresh_pipe_def)
  have short: "length (Split ''make:::2:::/src:::3s'' delim) < 5"
    by (simp add: s2)
  note r = short_line_panics [OF wf tk short, of "''/home/u''" "[''pwd:::0:::/:::0s:::t3'']" None]
  from r [THEN conjunct2, THEN conjunct1] have a: "producer ''/home/u''
        \<lparr>tokens = [''ls:::0:::/home/u:::1s:::t1'', ''make:::2:::/src:::3s'',
                   ''pwd:::0:::/:::0s:::t3''],
         scan_err = None\<rparr> (fresh_pipe None)
       = (Panicked IndexOutOfRange,
          after_writes [enriched ''/home/u'' ''ls:::0:::/home/u:::1s:::t1''] (fresh_pipe None))"
    by simp
  from r [THEN conjunct2, THEN conjunct2, THEN conjunct1] have b: "length (written (snd (producer ''/home/u''
        \<lparr>tokens = [''ls:::0:::/home/u:::1s:::t1'', ''make:::2:::/src:::3s'',
                   ''pwd:::0:::/:::0s:::t3''],
         scan_err = None\<rparr> (fresh_pipe None)))) = 1"
    by (simp add: fresh_pipe_def)
  from s1 have l: "5 \<le> length (Split ''ls:::0:::/home/u:::1s:::t1'' delim)" by simp
  have tk1: "takes (fresh_pipe None) 1" by (simp add: takes_def fresh_pipe_def)
  from l tk1 short a b show ?thesis by blast
qed

text \<open>
  C6. When the input of the preview splits into fewer than five parts, \<open>fzfPreview\<close>
  returns the format error, which names the number of parts, and has printed nothing
  and run nothing. With five parts or more the check passes: the fixed part of the
  report is printed first, and whatever error is returned is not a format error.
\<close>

theorem preview_format_check:
  "(length (Split data delim) < 5 \<longrightarrow>
      fzfPreview os data
        = ([], Some (ErrorString (''data format incorrect, expected 5 parts, got ''
                                    @ fmt_d (int (length (Split data delim)))))))
   \<and> (5 \<le> length (Split data delim) \<longrightarrow>
        prefix (report_head (Split data delim ! 0) (Split data delim ! 1)
                  (Split data delim ! 2) (Split data delim ! 3) (Split data delim ! 4))
          (fst (fzfPreview os data))
        \<and> snd (fzfPreview os data) \<noteq> Some (ErrorString msg))"
proof (intro conjI impI)
  assume "length (Split data delim) < 5"
  then show "fzfPreview os data
        = ([], Some (ErrorString (''data format incorrect, expected 5 parts, got ''
                                    @ fmt_d (int (length (Split data delim))))))"
    by (simp add: fzfPreview_def Let_def)
next
  assume "5 \<le> length (Split data delim)"
  then show "prefix (report_head (Split data delim ! 0) (Split data delim ! 1)
                  (Split data delim ! 2) (Split data delim ! 3) (Split data delim ! 4))
          (fst (fzfPreview os data))"
    by (simp add: fzfPreview_ok Let_def)
next
  assume "5 \<le> length (Split data delim)"
  then show "snd (fzfPreview os data) \<noteq> Some (ErrorString msg)"
    by (simp add: fzfPreview_ok Let_def errors_Join_def split: list.splits)
qed

theorem preview_format_check_witness:
  "length (Split ''cmd:::1:::dir'' delim) < 5
   \<and> fzfPreview (demo_os demo_out) ''cmd:::1:::dir''
       = ([], Some (ErrorString ''data format incorrect, expected 5 parts, got 3''))
   \<and> 5 \<le> length (Split ''ls:::0:::/tmp:::1s:::now'' delim)
   \<and> prefix [Println (Bold ''Full Command''), Println rule_line, Println ''ls'']
        (fst (fzfPreview (demo_os demo_out) ''ls:::0:::/tmp:::1s:::now''))"
proof -
  have s1: "Split ''cmd:::1:::dir'' delim = [''cmd'', ''1'', ''dir'']"
    by code_simp
  have s2: "Split ''ls:::0:::/tmp:::1s:::now'' delim = [''ls'', ''0'', ''/tmp'', ''1s'', ''now'']"
    by code_simp
  have h1: "length (Split ''cmd:::1:::dir'' delim) < 5" by (simp add: s1)
  have h2: "5 \<le> length (Split ''ls:::0:::/tmp:::1s:::now'' delim)" by (simp add: s2)
  have d: "fmt_d (int (length [''cmd'', ''1'', ''dir''])) = ''3''"
    by (simp add: fmt_d_def digit_char_def)
  from preview_format_check [of "''cmd:::1:::dir''" "demo_os demo_out"] h1
  have a: "fzfPreview (demo_os demo_out) ''cmd:::1:::dir''
       = ([], Some (ErrorString ''data format incorrect, expected 5 parts, got 3''))"
    unfolding s1 d by simp
  from preview_format_check [of "''ls:::0:::/tmp:::1s:::now''" "demo_os demo_out"] h2
  have "prefix (report_head ''ls'' ''0'' ''/tmp'' ''1s'' ''now'')
          (fst (fzfPreview (demo_os demo_out) ''ls:::0:::/tmp:::1s:::now''))"
    unfolding s2 by simp
  moreover have "prefix [Println (Bold ''Full Command''), Println rule_line, Println ''ls'']
        (report_head ''ls'' ''0'' ''/tmp'' ''1s'' ''now'')"
    by (simp add: report_head_def)
  ultimately have b: "prefix [Println (Bold ''Full Command''), Println rule_line, Println ''ls'']
        (fst (fzfPreview (demo_os demo_out) ''ls:::0:::/tmp:::1s:::now''))"
    by (rule prefix_order.trans [rotated])
  from h1 a h2 b show ?thesis by blast
qed

text \<open>
  C5. Once the format check has passed, the preview runs both searches, the global one
  and then the one of the directory, whatever either returns. If both fail, the
  returned error joins both failures and no related command is printed. If one fails,
  the returned error joins that one failure, and the lines of the other search are
  still printed, each once, in first-seen order.
\<close>

theorem preview_queries_both_attempted:
  assumes "5 \<le> length (Split data delim)"
    and "command = Split data delim ! 0"
    and "directory = Split data delim ! 2"
  shows "filter is_search (fst (fzfPreview os data))
           = [Cmd_Output (globalSearch_argv command),
              Cmd_Output (dirSearch_argv command directory)]
       \<and> (Output_res os (globalSearch_argv command) = Inl e1
            \<and> Output_res os (dirSearch_argv command directory) = Inl e2 \<longrightarrow>
            snd (fzfPreview os data) = Some (JoinError [e1, e2])
            \<and> filter is_related (fst (fzfPreview os data)) = [])
       \<and> (Output_res os (globalSearch_argv command) = Inl e1
            \<and> Output_res os (dirSearch_argv command directory) = Inr bs \<longrightarrow>
            snd (fzfPreview os data) = Some (JoinError [e1])
            \<and> filter is_related (fst (fzfPreview os data))
                = concat (map related_line (first_seen bs)))
       \<and> (Output_res os (globalSearch_argv command) = Inr as
            \<and> Output_res os (dirSearch_argv command directory) = Inl e2 \<longrightarrow>
            snd (fzfPreview os data) = Some (JoinError [e2])
            \<and> filter is_related (fst (fzfPreview os data))
                = concat (map related_line (first_seen as)))"
proof (intro conjI impI)
  show "filter is_search (fst (fzfPreview os data))
           = [Cmd_Output (globalSearch_argv command),
              Cmd_Output (dirSearch_argv command directory)]"
    using assms
    by (simp add: fzfPreview_ok Let_def report_head_search printResults_search)
next
  assume "Output_res os (globalSearch_argv command) = Inl e1
            \<and> Output_res os (dirSearch_argv command directory) = Inl e2"
  then have r: "fzfPreview os data
      = (report_head (Split data delim ! 0) (Split data delim ! 1) (Split data delim ! 2)
           (Split data delim ! 3) (Split data delim ! 4)
           @ [Cmd_Output (globalSearch_argv command)]
           @ [Cmd_Output (dirSearch_argv command directory)],
         errors_Join [Some e1, Some e2])"
    using assms by (simp add: fzfPreview_ok Let_def printResults_Inl)
  show "snd (fzfPreview os data) = Some (JoinError [e1, e2])"
    by (simp add: r errors_Join_def List.map_filter_simps)
  show "filter is_related (fst (fzfPreview os data)) = []"
    by (simp add: r report_head_related)
next
  assume "Output_res os (globalSearch_argv command) = Inl e1
            \<and> Output_res os (dirSearch_argv command directory) = Inr bs"
  then have r: "fzfPreview os data
      = (report_head (Split data delim ! 0) (Split data delim ! 1) (Split data delim ! 2)
           (Split data delim ! 3) (Split data delim ! 4)
           @ [Cmd_Output (globalSearch_argv command)]
           @ Cmd_Output (dirSearch_argv command directory)
             # concat (map related_line (first_seen bs)),
         errors_Join [Some e1, None])"
    using assms by (simp add: fzfPreview_ok Let_def printResults_Inl printResults_Inr)
  show "snd (fzfPreview os data) = Some (JoinError [e1])"
    by (simp add: r errors_Join_def List.map_filter_simps)
  show "filter is_related (fst (fzfPreview os data))
                = concat (map related_line (first_seen bs))"
    by (simp add: r report_head_related concat_related_related)
next
  assume "Output_res os (globalSearch_argv command) = Inr as
            \<and> Output_res os (dirSearch_argv command directory) = Inl e2"
  then have r: "fzfPreview os data
      = (report_head (Split data delim ! 0) (Split data delim ! 1) (Split data delim ! 2)
           (Split data delim ! 3) (Split data delim ! 4)
           @ (Cmd_Output (globalSearch_argv command)
               # concat (map related_line (first_seen as)))
           @ [Cmd_Output (dirSearch_argv command directory)],
         errors_Join [None, Some e2])"
    using assms by (simp add: fzfPreview_ok Let_def printResults_Inl printResults_Inr)
  show "snd (fzfPreview os data) = Some (JoinError [e2])"
    by (simp add: r errors_Join_def List.map_filter_simps)
  show "filter is_related (fst (fzfPreview os data))
                = concat (map related_line (first_seen as))"
    by (simp add: r report_head_related concat_related_related)
qed

theorem preview_queries_both_attempted_witness:
  "5 \<le> length (Split ''ls:::0:::/tmp:::1s:::now'' delim)
   \<and> Output_res (demo_os demo_out_both_fail) (globalSearch_argv ''ls'') = Inl exit_status_1
   \<and> Output_res (demo_os demo_out_both_fail) (dirSearch_argv ''ls'' ''/tmp'') = Inl no_history
   \<and> snd (fzfPreview (demo_os demo_out_both_fail) ''ls:::0:::/tmp:::1s:::now'')
       = Some (JoinError [exit_status_1, no_history])
   \<and> Output_res (demo_os demo_out_global_fails) (globalSearch_argv ''ls'') = Inl exit_status_1
   \<and> Output_res (demo_os demo_out_global_fails) (dirSearch_argv ''ls'' ''/tmp'')
       = Inr [''b'' @ [TAB] @ ''/y'', ''b'' @ [TAB] @ ''/y'', ''c'' @ [TAB] @ ''/z'']
   \<and> snd (fzfPreview (demo_os demo_out_global_fails) ''ls:::0:::/tmp:::1s:::now'')
       = Some (JoinError [exit_status_1])
   \<and> filter is_related (fst (fzfPreview (demo_os demo_out_global_fails) ''ls:::0:::/tmp:::1s:::now''))
       = [Printf related_fmt [''b'', ''/y''], Printf related_fmt [''c'', ''/z'']]
   \<and> filter is_search (fst (fzfPreview (demo_os demo_out_global_fails) ''ls:::0:::/tmp:::1s:::now''))
       = [Cmd_Output (globalSearch_argv ''ls''), Cmd_Output (dirSearch_argv ''ls'' ''/tmp'')]
   \<and> Output_res (demo_os demo_out_dir_fails) (globalSearch_argv ''ls'')
       = Inr [''a'' @ [TAB] @ ''/x'', ''a'' @ [TAB] @ ''/x'']
   \<and> Output_res (demo_os demo_out_dir_fails) (dirSearch_argv ''ls'' ''/tmp'') = Inl exit_status_1
   \<and> snd (fzfPreview (demo_os demo_out_dir_fails) ''ls:::0:::/tmp:::1s:::now'')
       = Some (JoinError [exit_status_1])
   \<and> filter is_related (fst (fzfPreview (demo_os demo_out_dir_fails) ''ls:::0:::/tmp:::1s:::now''))
       = [Printf related_fmt [''a'', ''/x'']]"
proof -
  have s: "Split ''ls:::0:::/tmp:::1s:::now'' delim = [''ls'', ''0'', ''/tmp'', ''1s'', ''now'']"
    by code_simp
  have h: "5 \<le> length (Split ''ls:::0:::/tmp:::1s:::now'' delim)" by (simp add: s)
  have c: "''ls'' = Split ''ls:::0:::/tmp:::1s:::now'' delim ! 0"
    and d: "''/tmp'' = Split ''ls:::0:::/tmp:::1s:::now'' delim ! 2"
    by (simp_all add: s)
  have g0: "Output_res (demo_os demo_out_both_fail) (globalSearch_argv ''ls'') = Inl exit_status_1"
    and d0: "Output_res (demo_os demo_out_both_fail) (dirSearch_argv ''ls'' ''/tmp'') = Inl no_history"
    by (simp_all add: demo_os_def demo_out_both_fail_def globalSearch_argv_def dirSearch_argv_def)
  have g1: "Output_res (demo_os demo_out_global_fails) (globalSearch_argv ''ls'') = Inl exit_status_1"
    and d1: "Output_res (demo_os demo_out_global_fails) (dirSearch_argv ''ls'' ''/tmp'')
       = Inr [''b'' @ [TAB] @ ''/y'', ''b'' @ [TAB] @ ''/y'', ''c'' @ [TAB] @ ''/z'']"
    by (simp_all add: demo_os_def demo_out_global_fails_def globalSearch_argv_def dirSearch_argv_def)
  have g2: "Output_res (demo_os demo_out_dir_fails) (globalSearch_argv ''ls'')
       = Inr [''a'' @ [TAB] @ ''/x'', ''a'' @ [TAB] @ ''/x'']"
    and d2: "Output_res (demo_os demo_out_dir_fails) (dirSearch_argv ''ls'' ''/tmp'') = Inl exit_status_1"
    by (simp_all add: demo_os_def demo_out_dir_fails_def globalSearch_argv_def dirSearch_argv_def)
  have ra: "related_line (''a'' @ [TAB] @ ''/x'') = [Printf related_fmt [''a'', ''/x'']]"
    and rb: "related_line (''b'' @ [TAB] @ ''/y'') = [Printf related_fmt [''b'', ''/y'']]"
    and rc: "related_line (''c'' @ [TAB] @ ''/z'') = [Printf related_fmt [''c'', ''/z'']]"
    by code_simp+
  have fb: "first_seen [''b'' @ [TAB] @ ''/y'', ''b'' @ [TAB] @ ''/y'', ''c'' @ [TAB] @ ''/z'']
              = [''b'' @ [TAB] @ ''/y'', ''c'' @ [TAB] @ ''/z'']"
    and fa: "first_seen [''a'' @ [TAB] @ ''/x'', ''a'' @ [TAB] @ ''/x''] = [''a'' @ [TAB] @ ''/x'']"
    by simp_all
  note t0 = preview_queries_both_attempted [OF h c d, of "demo_os demo_out_both_fail"
              exit_status_1 no_history]
  note t1 = preview_queries_both_attempted [OF h c d, of "demo_os demo_out_global_fails"
              exit_status_1 _ "[''b'' @ [TAB] @ ''/y'', ''b'' @ [TAB] @ ''/y'', ''c'' @ [TAB] @ ''/z'']"]
  note t2 = preview_queries_both_attempted [OF h c d, of "demo_os demo_out_dir_fails"
              _ exit_status_1 _ "[''a'' @ [TAB] @ ''/x'', ''a'' @ [TAB] @ ''/x'']"]
  from t0 g0 d0 have a0: "snd (fzfPreview (demo_os demo_out_both_fail) ''ls:::0:::/tmp:::1s:::now'')
       = Some (JoinError [exit_status_1, no_history])"
    by blast
  from t1 g1 d1 have a1: "snd (fzfPreview (demo_os demo_out_global_fails) ''ls:::0:::/tmp:::1s:::now'')
       = Some (JoinError [exit_status_1])"
    by blast
  from t1 g1 d1 have "filter is_related (fst (fzfPreview (demo_os demo_out_global_fails) ''ls:::0:::/tmp:::1s:::now''))
       = concat (map related_line
           (first_seen [''b'' @ [TAB] @ ''/y'', ''b'' @ [TAB] @ ''/y'', ''c'' @ [TAB] @ ''/z'']))"
    by blast
  then have b1: "filter is_related (fst (fzfPreview (demo_os demo_out_global_fails) ''ls:::0:::/tmp:::1s:::now''))
       = [Printf related_fmt [''b'', ''/y''], Printf related_fmt [''c'', ''/z'']]"
    unfolding fb by (simp add: rb [simplified] rc [simplified])
  from t1 have c1: "filter is_search (fst (fzfPreview (demo_os demo_out_global_fails) ''ls:::0:::/tmp:::1s:::now''))
       = [Cmd_Output (globalSearch_argv ''ls''), Cmd_Output (dirSearch_argv ''ls'' ''/tmp'')]"
    by blast
  from t2 g2 d2 have a2: "snd (fzfPreview (demo_os demo_out_dir_fails) ''ls:::0:::/tmp:::1s:::now'')
       = Some (JoinError [exit_status_1])"
    by blast
  from t2 g2 d2 have "filter is_related (fst (fzfPreview (demo_os demo_out_dir_fails) ''ls:::0:::/tmp:::1s:::now''))
       = concat (map related_line (first_seen [''a'' @ [TAB] @ ''/x'', ''a'' @ [TAB] @ ''/x'']))"
    by blast
  then have b2: "filter is_related (fst (fzfPreview (demo_os demo_out_dir_fails) ''ls:::0:::/tmp:::1s:::now''))
       = [Printf related_fmt [''a'', ''/x'']]"
    unfolding fa by (simp add: ra [simplified])
  from h g0 d0 a0 g1 d1 a1 b1 c1 g2 d2 a2 b2 show ?thesis by blast
qed

text \<open>
  C3. When both searches answer, the related commands printed are those of the lines
  of the global search followed by the lines of the directory search, in first-seen
  order: first the global lines, then the directory lines that the global search did
  not return; every line counts once, keyed by the whole line, and no related command
  is printed twice. For the global lines \<open>a\<close> in \<open>/x\<close>, \<open>b\<close> in \<open>/y\<close> and the
  directory lines \<open>b\<close> in \<open>/y\<close>, \<open>c\<close> in \<open>/z\<close> the output is \<open>a\<close>, \<open>b\<close>, \<open>c\<close>.
\<close>

theorem preview_merge_first_seen:
  assumes "5 \<le> length (Split data delim)"
    and "command = Split data delim ! 0"
    and "directory = Split data delim ! 2"
    and "Output_res os (globalSearch_argv command) = Inr as"
    and "Output_res os (dirSearch_argv command directory) = Inr bs"
  shows "filter is_related (fst (fzfPreview os data))
           = concat (map related_line (first_seen (as @ bs)))
       \<and> first_seen (as @ bs) = first_seen as @ filter (\<lambda>l. l \<notin> set as) (first_seen bs)
       \<and> distinct (first_seen (as @ bs))
       \<and> set (first_seen (as @ bs)) = set as \<union> set bs
       \<and> distinct (filter is_related (fst (fzfPreview os data)))
       \<and> snd (fzfPreview os data) = None"
proof -
  have r: "fzfPreview os data
      = (report_head (Split data delim ! 0) (Split data delim ! 1) (Split data delim ! 2)
           (Split data delim ! 3) (Split data delim ! 4)
           @ (Cmd_Output (globalSearch_argv command)
               # concat (map related_line (first_seen as)))
           @ Cmd_Output (dirSearch_argv command directory)
             # concat (map related_line (filter (\<lambda>l. l \<notin> set as) (first_seen bs))),
         errors_Join [None, None])"
    using assms by (simp add: fzfPreview_ok Let_def printResults_Inr)
  have printed: "filter is_related (fst (fzfPreview os data))
           = concat (map related_line (first_seen (as @ bs)))"
    by (simp add: r report_head_related concat_related_related first_seen_append)
  have once: "distinct (filter is_related (fst (fzfPreview os data)))"
    unfolding printed by (rule distinct_related) (rule distinct_first_seen)
  have none: "snd (fzfPreview os data) = None"
    by (simp add: r errors_Join_def List.map_filter_simps)
  from printed once none show ?thesis
    by (simp add: first_seen_append [symmetric] distinct_first_seen set_first_seen)
qed

theorem preview_merge_first_seen_witness:
  "5 \<le> length (Split ''ls:::0:::/tmp:::1s:::now'' delim)
   \<and> Output_res (demo_os demo_out) (globalSearch_argv ''ls'')
       = Inr [''a'' @ [TAB] @ ''/x'', ''b'' @ [TAB] @ ''/y'']
   \<and> Output_res (demo_os demo_out) (dirSearch_argv ''ls'' ''/tmp'')
       = Inr [''b'' @ [TAB] @ ''/y'', ''c'' @ [TAB] @ ''/z'']
   \<and> filter is_related (fst (fzfPreview (demo_os demo_out) ''ls:::0:::/tmp:::1s:::now''))
       = [Printf related_fmt [''a'', ''/x''], Printf related_fmt [''b'', ''/y''],
          Printf related_fmt [''c'', ''/z'']]
   \<and> snd (fzfPreview (demo_os demo_out) ''ls:::0:::/tmp:::1s:::now'') = None"
proof -
  have s: "Split ''ls:::0:::/tmp:::1s:::now'' delim = [''ls'', ''0'', ''/tmp'', ''1s'', ''now'']"
    by code_simp
  have h: "5 \<le> length (Split ''ls:::0:::/tmp:::1s:::now'' delim)" by (simp add: s)
  have c: "''ls'' = Split ''ls:::0:::/tmp:::1s:::now'' delim ! 0"
    and d: "''/tmp'' = Split ''ls:::0:::/tmp:::1s:::now'' delim ! 2"
    by (simp_all add: s)
  have g: "Output_res (demo_os demo_out) (globalSearch_argv ''ls'')
       = Inr [''a'' @ [TAB] @ ''/x'', ''b'' @ [TAB] @ ''/y'']"
    and ds: "Output_res (demo_os demo_out) (dirSearch_argv ''ls'' ''/tmp'')
       = Inr [''b'' @ [TAB] @ ''/y'', ''c'' @ [TAB] @ ''/z'']"
    by (simp_all add: demo_os_def demo_out_def globalSearch_argv_def dirSearch_argv_def)
  have ra: "related_line (''a'' @ [TAB] @ ''/x'') = [Printf related_fmt [''a'', ''/x'']]"
    and rb: "related_line (''b'' @ [TAB] @ ''/y'') = [Printf related_fmt [''b'', ''/y'']]"
    and rc: "related_line (''c'' @ [TAB] @ ''/z'') = [Printf related_fmt [''c'', ''/z'']]"
    by code_simp+
  have f: "first_seen ([''a'' @ [TAB] @ ''/x'', ''b'' @ [TAB] @ ''/y'']
                        @ [''b'' @ [TAB] @ ''/y'', ''c'' @ [TAB] @ ''/z''])
              = [''a'' @ [TAB] @ ''/x'', ''b'' @ [TAB] @ ''/y'', ''c'' @ [TAB] @ ''/z'']"
    by simp
  note t = preview_merge_first_seen [OF h c d g ds]
  from t have "filter is_related (fst (fzfPreview (demo_os demo_out) ''ls:::0:::/tmp:::1s:::now''))
       = concat (map related_line
           (first_seen ([''a'' @ [TAB] @ ''/x'', ''b'' @ [TAB] @ ''/y'']
                        @ [''b'' @ [TAB] @ ''/y'', ''c'' @ [TAB] @ ''/z''])))"
    by blast
  then have p: "filter is_related (fst (fzfPreview (demo_os demo_out) ''ls:::0:::/tmp:::1s:::now''))
       = [Printf related_fmt [''a'', ''/x''], Printf related_fmt [''b'', ''/y''],
          Printf related_fmt [''c'', ''/z'']]"
    unfolding f by (simp add: ra [simplified] rb [simplified] rc [simplified])
  from t have n: "snd (fzfPreview (demo_os demo_out) ''ls:::0:::/tmp:::1s:::now'') = None"
    by blast
  from h g ds p n show ?thesis by blast
qed

text \<open>
  C9. \<open>run\<close> takes its steps in one order: launch the backend, attach the adapter, run
  the selector, await the backend. A step that fails ends \<open>run\<close> with the error of
  that step, and no later step is taken (only the deferred close of the backend's
  output, once the backend was launched). \<open>run\<close> returns without an error only after
  the selector has returned and the wait for the backend has returned without error.
\<close>

theorem run_steps_in_order:
  "(altuinSearch os = (e1, Inl err) \<longrightarrow> run os query = (e1, Some err))
   \<and> (altuinSearch os = (e1, Inr atuin) \<and> atuinAdapt os = (e2, Inl err) \<longrightarrow>
        run os query = (e1 @ e2 @ [Stdout_Close], Some err))
   \<and> (altuinSearch os = (e1, Inr atuin) \<and> atuinAdapt os = (e2, Inr fzfInput)
        \<and> fzf os query = (e3, Some err) \<longrightarrow>
        run os query = (e1 @ e2 @ e3 @ [Stdout_Close], Some err))
   \<and> (altuinSearch os = (e1, Inr atuin) \<and> atuinAdapt os = (e2, Inr fzfInput)
        \<and> fzf os query = (e3, None) \<and> Wait_res os = Some err \<longrightarrow>
        run os query = (e1 @ e2 @ e3 @ [Cmd_Wait, Stdout_Close], Some err))
   \<and> (altuinSearch os = (e1, Inr atuin) \<and> atuinAdapt os = (e2, Inr fzfInput)
        \<and> fzf os query = (e3, None) \<and> Wait_res os = None \<longrightarrow>
        run os query = (e1 @ e2 @ e3 @ [Cmd_Wait, Stdout_Close], None))
   \<and> (snd (run os query) = None \<longrightarrow>
        (\<exists>selfExe.
           fst (run os query)
             = [Cmd_StdoutPipe, Cmd_Start atuin_search_argv,
                Os_Pipe, Os_Getwd, Go_producer (curDir_of os),
                Os_Executable, Cmd_Run (fzf_argv selfExe query),
                Cmd_Wait, Stdout_Close])
        \<and> Wait_res os = None)"
proof (intro conjI impI)
  assume "snd (run os query) = None"
  then show "\<exists>selfExe.
           fst (run os query)
             = [Cmd_StdoutPipe, Cmd_Start atuin_search_argv,
                Os_Pipe, Os_Getwd, Go_producer (curDir_of os),
                Os_Executable, Cmd_Run (fzf_argv selfExe query),
                Cmd_Wait, Stdout_Close]"
    by (auto simp: run_def altuinSearch_def atuinAdapt_def fzf_def
             split: option.splits sum.splits)
next
  assume "snd (run os query) = None"
  then show "Wait_res os = None"
    by (auto simp: run_def altuinSearch_def atuinAdapt_def fzf_def
             split: option.splits sum.splits)
qed (simp_all add: run_def)

theorem run_steps_in_order_witness:
  "altuinSearch ((demo_os demo_out)\<lparr>Start_res := Some exit_status_1\<rparr>)
     = ([Cmd_StdoutPipe, Cmd_Start atuin_search_argv],
        Inl (WrapError ''start atuin: '' exit_status_1))
   \<and> run ((demo_os demo_out)\<lparr>Start_res := Some exit_status_1\<rparr>) ''q''
       = ([Cmd_StdoutPipe, Cmd_Start atuin_search_argv],
          Some (WrapError ''start atuin: '' exit_status_1))
   \<and> atuinAdapt ((demo_os demo_out)\<lparr>Pipe_res := Some exit_status_1\<rparr>)
       = ([Os_Pipe], Inl exit_status_1)
   \<and> run ((demo_os demo_out)\<lparr>Pipe_res := Some exit_status_1\<rparr>) ''q''
       = ([Cmd_StdoutPipe, Cmd_Start atuin_search_argv, Os_Pipe, Stdout_Close],
          Some exit_status_1)
   \<and> fzf ((demo_os demo_out)\<lparr>Run_res := Some exit_status_1\<rparr>) ''q''
       = ([Os_Executable, Cmd_Run (fzf_argv ''/bin/af'' ''q'')],
          Some (WrapError ''run fzf: '' exit_status_1))
   \<and> run ((demo_os demo_out)\<lparr>Run_res := Some exit_status_1\<rparr>) ''q''
       = ([Cmd_StdoutPipe, Cmd_Start atuin_search_argv, Os_Pipe, Os_Getwd,
           Go_producer ''/home/u'', Os_Executable, Cmd_Run (fzf_argv ''/bin/af'' ''q''),
           Stdout_Close],
          Some (WrapError ''run fzf: '' exit_status_1))
   \<and> Wait_res ((demo_os demo_out)\<lparr>Wait_res := Some exit_status_1\<rparr>) = Some exit_status_1
   \<and> run ((demo_os demo_out)\<lparr>Wait_res := Some exit_status_1\<rparr>) ''q''
       = ([Cmd_StdoutPipe, Cmd_Start atuin_search_argv, Os_Pipe, Os_Getwd,
           Go_producer ''/home/u'', Os_Executable, Cmd_Run (fzf_argv ''/bin/af'' ''q''),
           Cmd_Wait, Stdout_Close],
          Some exit_status_1)
   \<and> Wait_res (demo_os demo_out) = None
   \<and> run (demo_os demo_out) ''q''
       = ([Cmd_StdoutPipe, Cmd_Start atuin_search_argv, Os_Pipe, Os_Getwd,
           Go_producer ''/home/u'', Os_Executable, Cmd_Run (fzf_argv ''/bin/af'' ''q''),
           Cmd_Wait, Stdout_Close],
          None)"
proof -
  let ?e = exit_status_1
  let ?launch = "[Cmd_StdoutPipe, Cmd_Start atuin_search_argv]"
  let ?attach = "[Os_Pipe, Os_Getwd, Go_producer ''/home/u'']"
  let ?select = "[Os_Executable, Cmd_Run (fzf_argv ''/bin/af'' ''q'')]"
  have l1: "altuinSearch ((demo_os demo_out)\<lparr>Start_res := Some ?e\<rparr>)
              = (?launch, Inl (WrapError ''start atuin: '' ?e))"
    by (simp add: altuinSearch_def demo_os_def)
  have l: "altuinSearch ((demo_os demo_out)\<lparr>Pipe_res := Some ?e\<rparr>) = (?launch, Inr ())"
    "altuinSearch ((demo_os demo_out)\<lparr>Run_res := Some ?e\<rparr>) = (?launch, Inr ())"
    "altuinSearch ((demo_os demo_out)\<lparr>Wait_res := Some ?e\<rparr>) = (?launch, Inr ())"
    "altuinSearch (demo_os demo_out) = (?launch, Inr ())"
    by (simp_all add: altuinSearch_def demo_os_def)
  have a2: "atuinAdapt ((demo_os demo_out)\<lparr>Pipe_res := Some ?e\<rparr>) = ([Os_Pipe], Inl ?e)"
    by (simp add: atuinAdapt_def demo_os_def)
  have a: "atuinAdapt ((demo_os demo_out)\<lparr>Run_res := Some ?e\<rparr>) = (?attach, Inr ())"
    "atuinAdapt ((demo_os demo_out)\<lparr>Wait_res := Some ?e\<rparr>) = (?attach, Inr ())"
    "atuinAdapt (demo_os demo_out) = (?attach, Inr ())"
    by (simp_all add: atuinAdapt_def curDir_of_def demo_os_def)
  have f3: "fzf ((demo_os demo_out)\<lparr>Run_res := Some ?e\<rparr>) ''q''
              = (?select, Some (WrapError ''run fzf: '' ?e))"
    by (simp add: fzf_def demo_os_def)
  have f: "fzf ((demo_os demo_out)\<lparr>Wait_res := Some ?e\<rparr>) ''q'' = (?select, None)"
    "fzf (demo_os demo_out) ''q'' = (?select, None)"
    by (simp_all add: fzf_def demo_os_def)
  have w4: "Wait_res ((demo_os demo_out)\<lparr>Wait_res := Some ?e\<rparr>) = Some ?e"
    by simp
  have w5: "Wait_res (demo_os demo_out) = None"
    by (simp add: demo_os_def)
  from run_steps_in_order [of "(demo_os demo_out)\<lparr>Start_res := Some ?e\<rparr>" ?launch
         "WrapError ''start atuin: '' ?e" "''q''"] l1
  have r1: "run ((demo_os demo_out)\<lparr>Start_res := Some ?e\<rparr>) ''q''
              = (?launch, Some (WrapError ''start atuin: '' ?e))"
    by blast
  from run_steps_in_order [of "(demo_os demo_out)\<lparr>Pipe_res := Some ?e\<rparr>" ?launch
         ?e "''q''" "()" "[Os_Pipe]"] l(1) a2
  have r2: "run ((demo_os demo_out)\<lparr>Pipe_res := Some ?e\<rparr>) ''q''
              = (?launch @ [Os_Pipe] @ [Stdout_Close], Some ?e)"
    by blast
  from run_steps_in_order [of "(demo_os demo_out)\<lparr>Run_res := Some ?e\<rparr>" ?launch
         "WrapError ''run fzf: '' ?e" "''q''" "()" ?attach "()" ?select] l(2) a(1) f3
  have r3: "run ((demo_os demo_out)\<lparr>Run_res := Some ?e\<rparr>) ''q''
              = (?launch @ ?attach @ ?select @ [Stdout_Close],
                 Some (WrapError ''run fzf: '' ?e))"
    by blast
  from run_steps_in_order [of "(demo_os demo_out)\<lparr>Wait_res := Some ?e\<rparr>" ?launch
         ?e "''q''" "()" ?attach "()" ?select] l(3) a(2) f(1) w4
  have r4: "run ((demo_os demo_out)\<lparr>Wait_res := Some ?e\<rparr>) ''q''
              = (?launch @ ?attach @ ?select @ [Cmd_Wait, Stdout_Close], Some ?e)"
    by blast
  from run_steps_in_order [of "demo_os demo_out" ?launch _ "''q''" "()" ?attach "()" ?select]
    l(4) a(3) f(2) w5
  have r5: "run (demo_os demo_out) ''q''
              = (?launch @ ?attach @ ?select @ [Cmd_Wait, Stdout_Close], None)"
    by blast
  from l1 r1 a2 r2 f3 r3 w4 r4 w5 r5 show ?thesis
    by simp
qed

text \<open>
  C10. With \<open>--preview\<close> as the only argument, \<open>main\<close> prints nothing, runs neither
  the preview renderer nor the pipeline, and exits with status 0.
\<close>

theorem preview_flag_without_record:
  "main os [prog, ''--preview''] = ([], 0)"
  by (simp add: main_def)

theorem preview_flag_without_record_witness:
  "main (demo_os demo_out) [''atuin-fzf'', ''--preview''] = ([], 0)"
  by (rule preview_flag_without_record)

end
